theory Spec2Isabelle
  imports Main
begin

section \<open>SIP messages as the engine reads them\<close>

text \<open>
  The parser is not part of the engine; a parsed header is therefore a field of the message.
  \<open>request.s('Subscription-State')\<close> yields an object with a state token, an optional numeric
  \<open>expires\<close> (a parsed delta-seconds, \<open>undefined\<close> when the parameter is absent) and an
  optional \<open>reason\<close>. \<open>None\<close> stands for JavaScript's \<open>undefined\<close>, and for \<open>null\<close> in
  the fields the source initialises with \<open>null\<close>.
\<close>

record subscription_state_header =
  ss_state :: string
  ss_expires :: "nat option"
  ss_reason :: "string option"

text \<open>An inbound NOTIFY: \<open>rq_event\<close> is \<open>None\<close> when the Event header is missing, otherwise the
  event token \<open>request.s('event').event\<close>.\<close>

record incoming_request =
  rq_event :: "string option"
  rq_subscription_state :: "subscription_state_header option"
  rq_call_id :: string
  rq_from_tag :: string
  rq_to_tag :: string
  rq_body :: string

text \<open>A response to a SUBSCRIBE: \<open>rs_expires\<close> is \<open>response.s('Expires')\<close>, a number or
  \<open>undefined\<close>.\<close>

record incoming_response =
  status_code :: nat
  rs_expires :: "nat option"
  rs_record_route :: "string list"
  rs_to_tag :: "string option"
  rs_cseq :: nat

record request_params =
  p_to_uri :: string
  p_call_id :: string
  p_cseq :: nat
  p_from_tag :: "string option"

text \<open>The arguments handed to \<open>new ExSIP.OutgoingRequest\<close>, and the headers set afterwards with
  \<open>setHeader\<close>.\<close>

record outgoing_request =
  or_method :: string
  or_ruri :: string
  or_params :: request_params
  or_extraHeaders :: "string list"
  or_headers :: "(string \<times> string) list"

datatype cause = REQUEST_TIMEOUT | CONNECTION_ERROR | EXPIRES_HEADER_MISSING | INVALID_EXPIRES_HEADER

section \<open>Dialogs, subscriptions, timers and the observable trace\<close>

text \<open>The fields of a dialog that the engine reads and writes. The constructor of the dialog
  layer can fail (the source says so where it tests the new object); the object it leaves
  then has no \<open>id\<close>, which is \<open>dlg_id = None\<close>.\<close>

record dialog =
  dlg_id :: "string option"
  route_set :: "string list option"
  local_seqnum :: "nat option"

record subscription =
  sub_id :: "string option"
  sub_state :: string
  sub_expires :: nat
  sub_dialog :: "dialog option"
  sub_N :: "nat option"

definition error_codes :: "nat list" where
  "error_codes = [404,405,410,416,480,481,482,483,484,485,489,501,604]"

datatype timer_owner = SubscriberTimer | SubscriptionTimer nat

text \<open>
  What leaves the engine: replies to inbound requests, requests handed to the request sender,
  the application callbacks (\<open>onFailure\<close>, \<open>onTerminate\<close>, \<open>receiveInfo\<close>, none of which is
  defined by the engine), and \<open>dialog.terminate()\<close>. \<open>Call_onSubscriptionTerminate\<close> records
  each invocation of the Subscriber's \<open>onSubscriptionTerminate\<close> with the calling Subscription.
  \<open>Thrown\<close> records an uncaught TypeError, which ends the handler.
\<close>

datatype event =
    Reply nat string "string list"
  | Send outgoing_request
  | OnFailure "incoming_response option" "cause option"
  | OnTerminate
  | ReceiveInfo incoming_request
  | DialogTerminate "string option"
  | Call_onSubscriptionTerminate nat
  | Thrown string

text \<open>
  One Subscriber with the user agent it lives in, the Subscription objects (a store from
  references to objects: a closed Subscription leaves the \<open>subscriptions\<close> map but is still
  referenced by its timer and transaction closures), the live timers of \<open>window.setTimeout\<close>
  (handle, callback owner, delay in ms) and the trace. \<open>subscriptions\<close> keeps the insertion
  order that \<open>for ... in\<close> follows.
\<close>

record state =
  s_state :: "string option"
  s_N :: "nat option"
  subscriptions :: "(string \<times> nat) list"
  call_id :: string
  cseq :: nat
  to_uri :: string
  contact :: string
  s_event :: string
  s_expires :: nat
  s_id :: "string option"
  route_set_2xx :: "string list option"
  to_tag_2xx :: "string option"
  initial_local_seqnum :: "nat option"
  sessions :: "string list"
  registrar_server :: string
  allowed_methods :: "string list"
  T1 :: nat
  clock :: string
  heap :: "nat \<Rightarrow> subscription option"
  next_ref :: nat
  timers :: "(nat \<times> timer_owner \<times> nat) list"
  next_timer :: nat
  log :: "event list"

section \<open>Primitives\<close>

definition emit :: "event \<Rightarrow> state \<Rightarrow> state" where
  "emit e st = st\<lparr>log := log st @ [e]\<rparr>"

definition clearTimeout :: "nat option \<Rightarrow> state \<Rightarrow> state" where
  "clearTimeout h st =
     (case h of None \<Rightarrow> st
      | Some i \<Rightarrow> st\<lparr>timers := filter (\<lambda>t. fst t \<noteq> i) (timers st)\<rparr>)"

definition setTimeout :: "timer_owner \<Rightarrow> nat \<Rightarrow> state \<Rightarrow> nat \<times> state" where
  "setTimeout owner delay st =
     (next_timer st,
      st\<lparr>timers := timers st @ [(next_timer st, owner, delay)],
         next_timer := Suc (next_timer st)\<rparr>)"

text \<open>Property keys of a JavaScript object are strings. The \<open>id\<close> of a Subscription is \<open>null\<close>
  until its constructor sets it, and \<open>null\<close> becomes the key "null".\<close>

definition js_key :: "string option \<Rightarrow> string" where
  "js_key k = (case k of None \<Rightarrow> ''null'' | Some s \<Rightarrow> s)"

text \<open>The \<open>id\<close> of the Subscriber is not set before \<open>subscribe()\<close>: it is \<open>undefined\<close>, which
  becomes the key "undefined".\<close>

definition js_key_undefined :: "string option \<Rightarrow> string" where
  "js_key_undefined k = (case k of None \<Rightarrow> ''undefined'' | Some s \<Rightarrow> s)"

text \<open>\<open>obj[k] = v\<close> seen on the keys alone: a new key goes to the end, an old one stays where
  it is.\<close>

definition key_set :: "string \<Rightarrow> string list \<Rightarrow> string list" where
  "key_set k ks = (if k \<in> set ks then ks else ks @ [k])"

text \<open>Truthiness of a number-or-undefined: \<open>undefined\<close> and \<open>0\<close> are falsy.\<close>

definition js_truthy :: "nat option \<Rightarrow> bool" where
  "js_truthy v = (case v of None \<Rightarrow> False | Some n \<Rightarrow> n \<noteq> 0)"

text \<open>\<open>v <= n\<close>: a comparison with \<open>undefined\<close> is false.\<close>

definition js_le :: "nat option \<Rightarrow> nat \<Rightarrow> bool" where
  "js_le v n = (case v of None \<Rightarrow> False | Some m \<Rightarrow> m \<le> n)"

text \<open>\<open>a || b\<close> on numbers.\<close>

definition js_or :: "nat option \<Rightarrow> nat \<Rightarrow> nat" where
  "js_or v d = (case v of None \<Rightarrow> d | Some n \<Rightarrow> if n = 0 then d else n)"

text \<open>The number held by a truthy value (read only under \<open>js_truthy\<close>).\<close>

definition js_num :: "nat option \<Rightarrow> nat" where
  "js_num v = (case v of None \<Rightarrow> 0 | Some n \<Rightarrow> n)"

text \<open>\<open>/^1[0-9]{2}$/.test(status_code)\<close> and \<open>/^2[0-9]{2}$/.test(status_code)\<close> on the decimal
  rendering of a number.\<close>

definition is_1xx :: "nat \<Rightarrow> bool" where
  "is_1xx c = (100 \<le> c \<and> c < 200)"

definition is_2xx :: "nat \<Rightarrow> bool" where
  "is_2xx c = (200 \<le> c \<and> c < 300)"

fun comma_join :: "string list \<Rightarrow> string" where
  "comma_join [] = []"
| "comma_join [x] = x"
| "comma_join (x # y # ys) = x @ '','' @ comma_join (y # ys)"

text \<open>Modelled from the spec: \<open>ExSIP.Utils.getAllowedMethods\<close> is not part of the engine's
  source; the Allow header carries the comma-joined supported methods.\<close>

definition getAllowedMethods :: "state \<Rightarrow> string" where
  "getAllowedMethods st = comma_join (allowed_methods st)"

definition upd_sub :: "nat \<Rightarrow> (subscription \<Rightarrow> subscription) \<Rightarrow> state \<Rightarrow> state" where
  "upd_sub a f st = st\<lparr>heap := (heap st)(a := map_option f (heap st a))\<rparr>"

definition onFailure :: "incoming_response option \<Rightarrow> cause option \<Rightarrow> state \<Rightarrow> state" where
  "onFailure response c st = emit (OnFailure response c) st"

section \<open>Subscriber and Subscription\<close>

text \<open>
  Every method takes the configuration and returns the new one; a method of a Subscription
  also takes the reference of the object, and does nothing on a reference that holds no
  object. Console output (the \<open>isDebug\<close> branches) is not part of the trace. The handlers
  that \<open>subscribe\<close> and \<open>unsubscribe\<close> hand to the request sender are functions of their own,
  named after the method that creates them.
\<close>

text \<open>\<open>createSubscribeRequest(dialog, params)\<close>: the only parameter a caller ever passes is
  \<open>from_tag\<close>. The \<open>dialog\<close> argument is not used by the body.\<close>

definition createSubscribeRequest ::
  "dialog option \<Rightarrow> string option \<Rightarrow> state \<Rightarrow> outgoing_request \<times> state" where
  "createSubscribeRequest dlg from_tag st =
     (let st' = st\<lparr>cseq := cseq st + 1\<rparr>;
          params = \<lparr>p_to_uri = to_uri st', p_call_id = call_id st', p_cseq = cseq st',
                    p_from_tag = from_tag\<rparr>;
          extraHeaders =
            [''Contact: '' @ contact st',
             ''Event: message-summary'',
             ''Date: '' @ clock st',
             ''Accept: application/simple-message-summary'',
             ''Allow: '' @ getAllowedMethods st']
      in (\<lparr>or_method = ''SUBSCRIBE'', or_ruri = registrar_server st', or_params = params,
           or_extraHeaders = extraHeaders, or_headers = []\<rparr>, st'))"

definition setHeader :: "string \<Rightarrow> string \<Rightarrow> outgoing_request \<Rightarrow> outgoing_request" where
  "setHeader name v r = r\<lparr>or_headers := filter (\<lambda>h. fst h \<noteq> name) (or_headers r) @ [(name, v)]\<rparr>"

text \<open>The \<open>send\<close> shared by \<open>Subscription.subscribe\<close> and \<open>Subscription.unsubscribe\<close>.\<close>

definition Subscription_send :: "nat \<Rightarrow> outgoing_request \<Rightarrow> state \<Rightarrow> state" where
  "Subscription_send a request st =
     (let st1 = clearTimeout (Option.bind (heap st a) sub_N) st;
          (h, st2) = setTimeout (SubscriptionTimer a) (T1 st1 * 64) st1;
          st3 = upd_sub a (\<lambda>s. s\<lparr>sub_N := Some h\<rparr>) st2
      in emit (Send request) st3)"

definition Subscription_subscribe :: "nat \<Rightarrow> state \<Rightarrow> state" where
  "Subscription_subscribe a st =
     (case heap st a of None \<Rightarrow> st
      | Some this \<Rightarrow>
          (let (request, st1) = createSubscribeRequest (sub_dialog this) None st
           in Subscription_send a request st1))"

definition Subscription_unsubscribe :: "nat \<Rightarrow> state \<Rightarrow> state" where
  "Subscription_unsubscribe a st =
     (case heap st a of None \<Rightarrow> st
      | Some this \<Rightarrow>
          (let st1 = upd_sub a (\<lambda>s. s\<lparr>sub_state := ''terminated''\<rparr>) st;
               (request, st2) = createSubscribeRequest (sub_dialog this) None st1;
               request' = setHeader ''Expires'' ''0'' request
           in Subscription_send a request' st2))"

text \<open>The handlers of the transaction opened by \<open>unsubscribe\<close>.\<close>

definition Subscription_unsubscribe_receiveResponse :: "nat \<Rightarrow> incoming_response \<Rightarrow> state \<Rightarrow> state" where
  "Subscription_unsubscribe_receiveResponse a response st = st"

definition Subscriber_close :: "state \<Rightarrow> state" where
  "Subscriber_close st =
     (if s_state st \<noteq> Some ''terminated'' then
        (let st1 = st\<lparr>s_state := Some ''terminated''\<rparr>;
             st2 = clearTimeout (s_N st1) st1;
             st3 = fold (\<lambda>kv. Subscription_unsubscribe (snd kv)) (subscriptions st2) st2;
             st4 = st3\<lparr>sessions := removeAll (js_key_undefined (s_id st3)) (sessions st3)\<rparr>
         in emit OnTerminate st4)
      else st)"

definition Subscriber_timer_N :: "state \<Rightarrow> state" where
  "Subscriber_timer_N st = Subscriber_close st"

definition onSubscriptionTerminate :: "nat \<Rightarrow> state \<Rightarrow> state" where
  "onSubscriptionTerminate a st =
     (let st0 = emit (Call_onSubscriptionTerminate a) st;
          k = js_key (Option.bind (heap st0 a) sub_id);
          st1 = st0\<lparr>subscriptions := filter (\<lambda>kv. fst kv \<noteq> k) (subscriptions st0)\<rparr>
      in if length (subscriptions st1) = 0 then Subscriber_close st1 else st1)"

definition terminateDialog :: "nat \<Rightarrow> state \<Rightarrow> state" where
  "terminateDialog a st =
     (case Option.bind (heap st a) sub_dialog of
        None \<Rightarrow> st
      | Some d \<Rightarrow> upd_sub a (\<lambda>s. s\<lparr>sub_dialog := None\<rparr>) (emit (DialogTerminate (dlg_id d)) st))"

definition Subscription_close :: "nat \<Rightarrow> state \<Rightarrow> state" where
  "Subscription_close a st =
     (case heap st a of None \<Rightarrow> st
      | Some this \<Rightarrow>
          (let st1 = upd_sub a (\<lambda>s. s\<lparr>sub_state := ''terminated''\<rparr>) st;
               st2 = terminateDialog a st1;
               st3 = clearTimeout (Option.bind (heap st2 a) sub_N) st2
           in onSubscriptionTerminate a st3))"

definition Subscription_timer_N :: "nat \<Rightarrow> state \<Rightarrow> state" where
  "Subscription_timer_N a st =
     (case heap st a of None \<Rightarrow> st
      | Some this \<Rightarrow>
          if sub_state this = ''terminated'' then Subscription_close a st
          else if sub_state this = ''pending'' then
            Subscription_close a (upd_sub a (\<lambda>s. s\<lparr>sub_state := ''terminated''\<rparr>) st)
          else Subscription_subscribe a st)"

text \<open>The handlers of the transaction opened by \<open>Subscription.subscribe\<close> (a renewal).\<close>

definition Subscription_subscribe_receiveResponse :: "nat \<Rightarrow> incoming_response \<Rightarrow> state \<Rightarrow> state" where
  "Subscription_subscribe_receiveResponse a response st =
     (case heap st a of None \<Rightarrow> st
      | Some this \<Rightarrow>
          if status_code response \<in> set error_codes then
            onFailure (Some response) None (Subscription_close a st)
          else if is_1xx (status_code response) then st
          else if is_2xx (status_code response) then
            (let expires = rs_expires response
             in if js_truthy expires \<and> js_le expires (sub_expires this) then
                  (let st1 = clearTimeout (sub_N this) st;
                       (h, st2) = setTimeout (SubscriptionTimer a) (js_num expires * 1000) st1
                   in upd_sub a (\<lambda>s. s\<lparr>sub_N := Some h\<rparr>) st2)
                else
                  (let st1 = Subscription_close a st
                   in if \<not> js_truthy expires then onFailure None (Some EXPIRES_HEADER_MISSING) st1
                      else onFailure None (Some INVALID_EXPIRES_HEADER) st1))
          else onFailure (Some response) None (Subscription_close a st))"

definition Subscription_subscribe_onRequestTimeout :: "nat \<Rightarrow> state \<Rightarrow> state" where
  "Subscription_subscribe_onRequestTimeout a st = onFailure None (Some REQUEST_TIMEOUT) st"

definition Subscription_subscribe_onTransportError :: "nat \<Rightarrow> state \<Rightarrow> state" where
  "Subscription_subscribe_onTransportError a st = onFailure None (Some CONNECTION_ERROR) st"

definition Subscription_unsubscribe_onRequestTimeout :: "nat \<Rightarrow> state \<Rightarrow> state" where
  "Subscription_unsubscribe_onRequestTimeout a st = onFailure None (Some REQUEST_TIMEOUT) st"

definition Subscription_unsubscribe_onTransportError :: "nat \<Rightarrow> state \<Rightarrow> state" where
  "Subscription_unsubscribe_onTransportError a st = onFailure None (Some CONNECTION_ERROR) st"

text \<open>\<open>Subscriber.subscribe\<close>; the fresh tag of \<open>ExSIP.Utils.newTag()\<close> is an argument. The
  Call-ID header of the request is the \<open>call_id\<close> parameter it was built with.\<close>

definition Subscriber_subscribe :: "string \<Rightarrow> state \<Rightarrow> state" where
  "Subscriber_subscribe from_tag st =
     (if s_state st \<in> {Some ''notify_wait'', Some ''pending'', Some ''active'', Some ''terminated''}
      then st
      else
        (let (request, st1) = createSubscribeRequest None (Some from_tag) st;
             st2 = st1\<lparr>s_id := Some (p_call_id (or_params request) @ from_tag)\<rparr>;
             st3 = st2\<lparr>sessions := key_set (js_key_undefined (s_id st2)) (sessions st2)\<rparr>;
             st4 = st3\<lparr>s_state := Some ''notify_wait''\<rparr>;
             (h, st5) = setTimeout SubscriberTimer (T1 st4 * 64) st4;
             st6 = st5\<lparr>s_N := Some h\<rparr>
         in emit (Send request) st6))"

text \<open>The handlers of the transaction opened by \<open>Subscriber.subscribe\<close> (the initial SUBSCRIBE).\<close>

definition Subscriber_subscribe_receiveResponse :: "incoming_response \<Rightarrow> state \<Rightarrow> state" where
  "Subscriber_subscribe_receiveResponse response st =
     (if is_1xx (status_code response) then st
      else if is_2xx (status_code response) then
        (let expires = rs_expires response
         in if js_truthy expires \<and> js_le expires (s_expires st) then
              (let st1 = clearTimeout (s_N st) st;
                   (h, st2) = setTimeout SubscriberTimer (js_num expires * 1000) st1
               in st2\<lparr>s_N := Some h,
                      route_set_2xx := Some (rev (rs_record_route response)),
                      to_tag_2xx := rs_to_tag response,
                      initial_local_seqnum := Some (rs_cseq response)\<rparr>)
            else
              (let st1 = Subscriber_close st
               in if \<not> js_truthy expires then onFailure None (Some EXPIRES_HEADER_MISSING) st1
                  else onFailure None (Some INVALID_EXPIRES_HEADER) st1))
      else onFailure (Some response) None (Subscriber_close st))"

definition Subscriber_subscribe_onRequestTimeout :: "state \<Rightarrow> state" where
  "Subscriber_subscribe_onRequestTimeout st = onFailure None (Some REQUEST_TIMEOUT) st"

definition Subscriber_subscribe_onTransportError :: "state \<Rightarrow> state" where
  "Subscriber_subscribe_onTransportError st = onFailure None (Some CONNECTION_ERROR) st"

definition Subscriber_unsubscribe :: "state \<Rightarrow> state" where
  "Subscriber_unsubscribe st = Subscriber_close st"

definition Subscriber_terminate :: "state \<Rightarrow> state" where
  "Subscriber_terminate st = Subscriber_unsubscribe st"

definition Subscriber_refresh :: "state \<Rightarrow> state" where
  "Subscriber_refresh st = fold (\<lambda>kv. Subscription_subscribe (snd kv)) (subscriptions st) st"

definition matchEvent :: "incoming_request \<Rightarrow> state \<Rightarrow> bool \<times> state" where
  "matchEvent request st =
     (if rq_event request = None then (False, st)
      else if rq_subscription_state request = None then (False, st)
      else if Some (s_event st) \<noteq> rq_event request then
        (False, emit (Reply 481 ''Event Match Failed'' []) st)
      else (True, st))"

text \<open>The body shared by the cases \<open>'active'\<close> (falling through) and \<open>'pending'\<close> of
  \<open>Subscription.receiveRequest\<close>.\<close>

definition Subscription_receiveRequest_pending ::
  "nat \<Rightarrow> subscription_state_header \<Rightarrow> state \<Rightarrow> state" where
  "Subscription_receiveRequest_pending a subscription_state st =
     (let st1 = upd_sub a (\<lambda>s. s\<lparr>sub_expires := js_or (ss_expires subscription_state) (sub_expires s)\<rparr>) st;
          st2 = clearTimeout (Option.bind (heap st1 a) sub_N) st1;
          (h, st3) = setTimeout (SubscriptionTimer a)
                       ((case heap st2 a of None \<Rightarrow> 0 | Some s \<Rightarrow> sub_expires s) * 1000) st2
      in upd_sub a (\<lambda>s. s\<lparr>sub_N := Some h\<rparr>) st3)"

text \<open>\<open>Subscription.receiveRequest\<close>; the reason phrase \<open>ExSIP.C.REASON_200\<close> is taken to be
  \<open>OK\<close>. A request without Subscription-State can only come in with \<open>initial\<close> set (a later
  one fails \<open>matchEvent\<close>); reading \<open>.state\<close> of \<open>undefined\<close> then throws.\<close>

definition Subscription_receiveRequest :: "nat \<Rightarrow> incoming_request \<Rightarrow> bool \<Rightarrow> state \<Rightarrow> state" where
  "Subscription_receiveRequest a request initial st =
     (case heap st a of None \<Rightarrow> st
      | Some this \<Rightarrow>
          (let (matched, st0) = (if initial then (True, st) else matchEvent request st)
           in if \<not> matched then st0
              else
                (let st1 = emit (Reply 200 ''OK'' [''Contact: <'' @ contact st0 @ ''>'']) st0
                 in case rq_subscription_state request of
                      None \<Rightarrow> emit (Thrown ''TypeError'') st1
                    | Some subscription_state \<Rightarrow>
                        if ss_state subscription_state = ''active'' then
                          (let st2 = upd_sub a (\<lambda>s. s\<lparr>sub_state := ''active''\<rparr>) st1;
                               st3 = emit (ReceiveInfo request) st2
                           in Subscription_receiveRequest_pending a subscription_state st3)
                        else if ss_state subscription_state = ''pending'' then
                          Subscription_receiveRequest_pending a subscription_state st1
                        else if ss_state subscription_state = ''terminated'' then
                          emit (ReceiveInfo request) (Subscription_close a st1)
                        else st1)))"

text \<open>A \<open>new\<close> expression evaluates to an object, and every object is truthy.\<close>

definition js_truthy_object :: "'a \<Rightarrow> bool" where
  "js_truthy_object obj = True"

text \<open>\<open>createConfirmedDialog\<close>; the constructor \<open>ExSIP.Dialog\<close> belongs to the dialog layer and is
  the parameter \<open>mk\<close> (from the message and the role to the new dialog).\<close>

definition createConfirmedDialog ::
  "(incoming_request \<Rightarrow> string \<Rightarrow> dialog) \<Rightarrow> nat \<Rightarrow> incoming_request \<Rightarrow> string \<Rightarrow> state
     \<Rightarrow> bool \<times> state" where
  "createConfirmedDialog mk a message type st =
     (let local_tag = (if type = ''UAS'' then rq_to_tag message else rq_from_tag message);
          remote_tag = (if type = ''UAS'' then rq_from_tag message else rq_to_tag message);
          id = rq_call_id message @ local_tag @ remote_tag;
          dialog = mk message type
      in if js_truthy_object dialog then
           (True, upd_sub a (\<lambda>s. s\<lparr>sub_dialog := Some dialog\<rparr>) st)
         else (False, st))"

text \<open>\<open>obj[k] = v\<close> on an object whose keys are kept in insertion order.\<close>

fun assoc_set :: "string \<Rightarrow> nat \<Rightarrow> (string \<times> nat) list \<Rightarrow> (string \<times> nat) list" where
  "assoc_set k v [] = [(k, v)]"
| "assoc_set k v (p # ps) = (if fst p = k then (k, v) # ps else p # assoc_set k v ps)"

text \<open>The constructor \<open>ExSIP.Subscription(subscriber, request, state, expires)\<close>; the new object
  gets the next free reference. \<open>this.dialog.id.toString()\<close> throws a TypeError when the
  dialog has no \<open>id\<close>, which ends the constructor (and the handler that called it) there.\<close>

definition Subscription_new ::
  "(incoming_request \<Rightarrow> string \<Rightarrow> dialog) \<Rightarrow> incoming_request \<Rightarrow> string \<Rightarrow> nat \<Rightarrow> state
     \<Rightarrow> state" where
  "Subscription_new mk request state0 expires st =
     (let a = next_ref st;
          this = \<lparr>sub_id = None, sub_state = state0, sub_expires = expires,
                  sub_dialog = None, sub_N = None\<rparr>;
          st1 = st\<lparr>heap := (heap st)(a \<mapsto> this), next_ref := Suc a\<rparr>;
          (created, st2) = createConfirmedDialog mk a request ''UAS'' st1
      in if created then
           (case Option.bind (Option.bind (heap st2 a) sub_dialog) dlg_id of
              None \<Rightarrow> emit (Thrown ''TypeError'') st2
            | Some i \<Rightarrow>
                (let st3 = upd_sub a (\<lambda>s. s\<lparr>sub_id := Some i\<rparr>) st2;
                     st4 = st3\<lparr>subscriptions :=
                                assoc_set (js_key (Option.bind (heap st3 a) sub_id)) a
                                  (subscriptions st3)\<rparr>;
                     st5 = (if Some (rq_from_tag request) = to_tag_2xx st4 then
                              upd_sub a (\<lambda>s. s\<lparr>sub_dialog :=
                                  map_option (\<lambda>d. d\<lparr>route_set := route_set_2xx st4\<rparr>)
                                    (sub_dialog s)\<rparr>) st4
                            else st4);
                     st6 = upd_sub a (\<lambda>s. s\<lparr>sub_dialog :=
                                  map_option (\<lambda>d. d\<lparr>local_seqnum := initial_local_seqnum st5\<rparr>)
                                    (sub_dialog s)\<rparr>) st5
                 in Subscription_receiveRequest a request True st6))
         else st2)"

definition Subscriber_receiveRequest ::
  "(incoming_request \<Rightarrow> string \<Rightarrow> dialog) \<Rightarrow> incoming_request \<Rightarrow> state \<Rightarrow> state" where
  "Subscriber_receiveRequest mk request st =
     (let (matched, st0) = matchEvent request st
      in if \<not> matched then st0
         else
           (case rq_subscription_state request of
              None \<Rightarrow> emit (Thrown ''TypeError'') st0
            | Some subscription_state \<Rightarrow>
                (let expires = js_or (ss_expires subscription_state) (s_expires st0)
                 in if ss_state subscription_state = ''pending''
                       \<or> ss_state subscription_state = ''active'' then
                      Subscription_new mk request (ss_state subscription_state) expires
                        (clearTimeout (s_N st0) st0)
                    else if ss_state subscription_state = ''terminated'' then
                      Subscriber_close (clearTimeout (s_N st0) st0)
                    else st0)))"

text \<open>A Subscription on which \<open>close()\<close> has nothing left to do: terminated, without a dialog,
  its watchdog not live, its id not in the subscriptions map, and the Subscriber terminated if
  that map is empty.\<close>

definition closed_subscription :: "nat \<Rightarrow> state \<Rightarrow> bool" where
  "closed_subscription a st =
     (case heap st a of
        None \<Rightarrow> False
      | Some this \<Rightarrow>
          sub_state this = ''terminated'' \<and> sub_dialog this = None
          \<and> sub_N this \<notin> Some ` fst ` set (timers st)
          \<and> js_key (sub_id this) \<notin> fst ` set (subscriptions st)
          \<and> (subscriptions st \<noteq> [] \<or> s_state st = Some ''terminated''))"

text \<open>The configuration in which the constructor, given a dialog that has an id, hands the
  request to \<open>receiveRequest\<close>: the new object holds its dialog and its id and is entered in
  the Subscriber's map. \<open>unregistered\<close> is the configuration in which it throws when the
  dialog has none: the object exists and holds the dialog, and nothing refers to it.\<close>

definition registered ::
  "(incoming_request \<Rightarrow> string \<Rightarrow> dialog) \<Rightarrow> incoming_request \<Rightarrow> string \<Rightarrow> nat \<Rightarrow> state
     \<Rightarrow> state" where
  "registered mk request state0 expires st =
     st\<lparr>heap := (heap st)(next_ref st \<mapsto>
            \<lparr>sub_id = dlg_id (mk request ''UAS''), sub_state = state0, sub_expires = expires,
             sub_dialog = Some ((if Some (rq_from_tag request) = to_tag_2xx st
                                 then (mk request ''UAS'')\<lparr>route_set := route_set_2xx st\<rparr>
                                 else mk request ''UAS'')\<lparr>local_seqnum := initial_local_seqnum st\<rparr>),
             sub_N = None\<rparr>),
        next_ref := Suc (next_ref st),
        subscriptions :=
          assoc_set (js_key (dlg_id (mk request ''UAS''))) (next_ref st) (subscriptions st)\<rparr>"

definition unregistered ::
  "(incoming_request \<Rightarrow> string \<Rightarrow> dialog) \<Rightarrow> incoming_request \<Rightarrow> string \<Rightarrow> nat \<Rightarrow> state
     \<Rightarrow> state" where
  "unregistered mk request state0 expires st =
     st\<lparr>heap := (heap st)(next_ref st \<mapsto>
            \<lparr>sub_id = None, sub_state = state0, sub_expires = expires,
             sub_dialog = Some (mk request ''UAS''), sub_N = None\<rparr>),
        next_ref := Suc (next_ref st)\<rparr>"

section \<open>Sample configurations\<close>

text \<open>A Subscriber for the event package \<open>presence\<close> that has sent its initial SUBSCRIBE
  (requesting 180 s) and waits, its 64*T1 watchdog running.\<close>

definition ex_wait :: state where
  "ex_wait =
     \<lparr>s_state = Some ''notify_wait'', s_N = Some 0, subscriptions = [],
      call_id = ''c1'', cseq = 81, to_uri = ''sip:alice@example.com'',
      contact = ''<sip:alice@198.51.100.7;transport=ws>'', s_event = ''presence'', s_expires = 180,
      s_id = Some ''c1t1'', route_set_2xx = None, to_tag_2xx = None, initial_local_seqnum = None,
      sessions = [''c1t1''], registrar_server = ''sip:example.com'',
      allowed_methods = [''INVITE'', ''ACK'', ''BYE''], T1 = 500, clock = ''Tue Nov 03 2026'',
      heap = Map.empty, next_ref = 0, timers = [(0, SubscriberTimer, 32000)], next_timer = 1,
      log = []\<rparr>"

text \<open>The same Subscriber before \<open>subscribe()\<close>: no state and no id yet; the user agent holds
  one other session.\<close>

definition ex_fresh :: state where
  "ex_fresh =
     ex_wait\<lparr>s_state := None, s_N := None, cseq := 80, s_id := None, sessions := [''s2''],
             timers := [], next_timer := 0\<rparr>"

definition ex_dialog :: dialog where
  "ex_dialog = \<lparr>dlg_id = Some ''c1t1r9'', route_set = Some [], local_seqnum = None\<rparr>"

definition ex_mk :: "incoming_request \<Rightarrow> string \<Rightarrow> dialog" where
  "ex_mk message type = ex_dialog"


definition ex_sub :: subscription where
  "ex_sub = \<lparr>sub_id = Some ''c1t1r9'', sub_state = ''active'', sub_expires = 180,
             sub_dialog = Some ex_dialog, sub_N = Some 1\<rparr>"

text \<open>The same Subscriber once a first NOTIFY has created one active Subscription (reference 0),
  whose watchdog runs for 180 s.\<close>

definition ex_active :: state where
  "ex_active =
     ex_wait\<lparr>subscriptions := [(''c1t1r9'', 0)], heap := Map.empty(0 \<mapsto> ex_sub), next_ref := 1,
             timers := [(1, SubscriptionTimer 0, 180000)], next_timer := 2\<rparr>"

definition ex_notify :: "string \<Rightarrow> nat option \<Rightarrow> incoming_request" where
  "ex_notify token e =
     \<lparr>rq_event = Some ''presence'',
      rq_subscription_state = Some \<lparr>ss_state = token, ss_expires = e, ss_reason = None\<rparr>,
      rq_call_id = ''c1'', rq_from_tag = ''r9'', rq_to_tag = ''t1'', rq_body = ''open''\<rparr>"

definition ex_response :: "nat \<Rightarrow> nat option \<Rightarrow> incoming_response" where
  "ex_response code e =
     \<lparr>status_code = code, rs_expires = e, rs_record_route = [''<sip:p1.example.com;lr>''],
      rs_to_tag = Some ''r9'', rs_cseq = 81\<rparr>"

section \<open>Request construction\<close>

text \<open>
  C7, as stated, fails: the Event header is the literal \<open>message-summary\<close> whatever event
  package the Subscriber is configured with, and building the request advances the
  Subscriber's \<open>cseq\<close>. At a Subscriber configured for \<open>presence\<close> no header
  \<open>Event: presence\<close> is produced and the sequence number changes.
\<close>

theorem createSubscribeRequest_event_counterexample:
  "s_event ex_wait = ''presence''
   \<and> ''Event: presence'' \<notin> set (or_extraHeaders (fst (createSubscribeRequest None None ex_wait)))
   \<and> cseq (snd (createSubscribeRequest None None ex_wait)) \<noteq> cseq ex_wait"
  by (simp add: createSubscribeRequest_def ex_wait_def Let_def getAllowedMethods_def)

text \<open>
  C7, amended: every request built by \<open>createSubscribeRequest\<close> is a SUBSCRIBE whose extra
  headers are exactly Contact (the Subscriber's contact), \<open>Event: message-summary\<close>, Date,
  \<open>Accept: application/simple-message-summary\<close> and Allow (the comma-joined supported
  methods); it carries the Subscriber's call-id and target and the incremented \<open>cseq\<close>. The
  only effect of the construction is that increment: nothing is sent.
\<close>

theorem createSubscribeRequest_headers:
  "or_method (fst (createSubscribeRequest dlg from_tag st)) = ''SUBSCRIBE''
   \<and> or_extraHeaders (fst (createSubscribeRequest dlg from_tag st)) =
       [''Contact: '' @ contact st,
        ''Event: message-summary'',
        ''Date: '' @ clock st,
        ''Accept: application/simple-message-summary'',
        ''Allow: '' @ comma_join (allowed_methods st)]
   \<and> p_cseq (or_params (fst (createSubscribeRequest dlg from_tag st))) = cseq st + 1
   \<and> p_call_id (or_params (fst (createSubscribeRequest dlg from_tag st))) = call_id st
   \<and> p_to_uri (or_params (fst (createSubscribeRequest dlg from_tag st))) = to_uri st
   \<and> snd (createSubscribeRequest dlg from_tag st) = st\<lparr>cseq := cseq st + 1\<rparr>
   \<and> log (snd (createSubscribeRequest dlg from_tag st)) = log st"
  by (simp add: createSubscribeRequest_def Let_def getAllowedMethods_def)

section \<open>Timeouts and transport errors\<close>

text \<open>
  C3, as stated, fails: the timeout handler of the initial SUBSCRIBE reports the failure and
  nothing else. The waiting Subscriber stays in \<open>notify_wait\<close> with its watchdog running,
  which is not what \<open>close()\<close> followed by the report would leave.
\<close>

theorem onRequestTimeout_close_counterexample:
  "s_state (Subscriber_subscribe_onRequestTimeout ex_wait) = Some ''notify_wait''
   \<and> timers (Subscriber_subscribe_onRequestTimeout ex_wait) = [(0, SubscriberTimer, 32000)]
   \<and> log (Subscriber_subscribe_onRequestTimeout ex_wait) = [OnFailure None (Some REQUEST_TIMEOUT)]
   \<and> Subscriber_subscribe_onRequestTimeout ex_wait
        \<noteq> onFailure None (Some REQUEST_TIMEOUT) (Subscriber_close ex_wait)"
  by (simp add: Subscriber_subscribe_onRequestTimeout_def onFailure_def emit_def ex_wait_def
      Subscriber_close_def clearTimeout_def js_key_undefined_def)

text \<open>
  C3, amended: on a transaction timeout and on a transport error of a SUBSCRIBE, initial or
  renewal, the only effect is the failure report with cause \<open>REQUEST_TIMEOUT\<close> or
  \<open>CONNECTION_ERROR\<close>; states, timers, dialogs and the subscriptions map are left as they
  were (the watchdog armed when the request was sent is still pending).
\<close>

theorem timeout_and_transport_error_only_report:
  "Subscriber_subscribe_onRequestTimeout st
     = st\<lparr>log := log st @ [OnFailure None (Some REQUEST_TIMEOUT)]\<rparr>
   \<and> Subscriber_subscribe_onTransportError st
     = st\<lparr>log := log st @ [OnFailure None (Some CONNECTION_ERROR)]\<rparr>
   \<and> Subscription_subscribe_onRequestTimeout a st
     = st\<lparr>log := log st @ [OnFailure None (Some REQUEST_TIMEOUT)]\<rparr>
   \<and> Subscription_subscribe_onTransportError a st
     = st\<lparr>log := log st @ [OnFailure None (Some CONNECTION_ERROR)]\<rparr>"
  by (simp add: Subscriber_subscribe_onRequestTimeout_def Subscriber_subscribe_onTransportError_def
      Subscription_subscribe_onRequestTimeout_def Subscription_subscribe_onTransportError_def
      onFailure_def emit_def)

section \<open>NOTIFY with an unknown state token\<close>

text \<open>
  C9: a NOTIFY that passes \<open>matchEvent\<close> and whose Subscription-State token is none of
  \<open>pending\<close>, \<open>active\<close>, \<open>terminated\<close> leaves the whole configuration as it was: no
  Subscription is created, \<open>close()\<close> is not run, the watchdog stays armed and nothing is
  replied.
\<close>

theorem receiveRequest_unknown_token_no_change:
  assumes "fst (matchEvent request st)"
    and "rq_subscription_state request = Some ss"
    and "ss_state ss \<noteq> ''pending''" and "ss_state ss \<noteq> ''active''"
    and "ss_state ss \<noteq> ''terminated''"
  shows "Subscriber_receiveRequest mk request st = st"
  using assms
  by (simp add: Subscriber_receiveRequest_def matchEvent_def split: if_splits)

theorem receiveRequest_unknown_token_witness:
  "fst (matchEvent (ex_notify ''waiting'' (Some 60)) ex_wait)
   \<and> Subscriber_receiveRequest ex_mk (ex_notify ''waiting'' (Some 60)) ex_wait = ex_wait
   \<and> timers ex_wait = [(0, SubscriberTimer, 32000)]"
proof -
  have m: "fst (matchEvent (ex_notify ''waiting'' (Some 60)) ex_wait)"
    by (simp add: matchEvent_def ex_notify_def ex_wait_def)
  have s: "rq_subscription_state (ex_notify ''waiting'' (Some 60))
             = Some \<lparr>ss_state = ''waiting'', ss_expires = Some 60, ss_reason = None\<rparr>"
    by (simp add: ex_notify_def)
  have "Subscriber_receiveRequest ex_mk (ex_notify ''waiting'' (Some 60)) ex_wait = ex_wait"
    using receiveRequest_unknown_token_no_change [OF m s] by simp
  with m show ?thesis by (simp add: ex_wait_def)
qed

section \<open>Closing a Subscription: auxiliary facts\<close>

lemma Subscriber_close_no_subscriptions:
  "subscriptions st = [] \<Longrightarrow>
   Subscriber_close st =
     (if s_state st \<noteq> Some ''terminated'' then
        emit OnTerminate
          ((clearTimeout (s_N st) (st\<lparr>s_state := Some ''terminated''\<rparr>))
             \<lparr>sessions := removeAll (js_key_undefined (s_id st)) (sessions st)\<rparr>)
      else st)"
  by (simp add: Subscriber_close_def Let_def clearTimeout_def split: option.splits)

lemma heap_Subscriber_close_no_subscriptions:
  "subscriptions st = [] \<Longrightarrow> heap (Subscriber_close st) = heap st"
  by (simp add: Subscriber_close_no_subscriptions emit_def clearTimeout_def split: option.splits)

lemma heap_onSubscriptionTerminate:
  "heap (onSubscriptionTerminate a st) = heap st"
  by (simp add: onSubscriptionTerminate_def Let_def heap_Subscriber_close_no_subscriptions emit_def)

lemma heap_terminateDialog:
  "heap st a = Some this \<Longrightarrow>
   heap (terminateDialog a st) = (heap st)(a \<mapsto> this\<lparr>sub_dialog := None\<rparr>)"
  by (auto simp add: terminateDialog_def upd_sub_def emit_def split: option.splits)

lemma heap_clearTimeout [simp]: "heap (clearTimeout h st) = heap st"
  by (simp add: clearTimeout_def split: option.splits)

lemma Subscription_close_heap:
  "heap st a = Some this \<Longrightarrow>
   heap (Subscription_close a st) = (heap st)(a \<mapsto> this\<lparr>sub_state := ''terminated'', sub_dialog := None\<rparr>)"
  by (simp add: Subscription_close_def Let_def heap_onSubscriptionTerminate heap_terminateDialog upd_sub_def)

lemma subscriptions_Subscriber_close_no_subscriptions:
  "subscriptions st = [] \<Longrightarrow> subscriptions (Subscriber_close st) = []"
  by (simp add: Subscriber_close_no_subscriptions emit_def clearTimeout_def split: option.splits)

lemma timers_Subscriber_close_no_subscriptions:
  "subscriptions st = [] \<Longrightarrow> set (timers (Subscriber_close st)) \<subseteq> set (timers st)"
  by (auto simp add: Subscriber_close_no_subscriptions emit_def clearTimeout_def split: option.splits)

lemma subscriptions_onSubscriptionTerminate:
  "subscriptions (onSubscriptionTerminate a st)
     = filter (\<lambda>kv. fst kv \<noteq> js_key (Option.bind (heap st a) sub_id)) (subscriptions st)"
  by (simp add: onSubscriptionTerminate_def Let_def emit_def
      subscriptions_Subscriber_close_no_subscriptions)

lemma timers_onSubscriptionTerminate:
  "set (timers (onSubscriptionTerminate a st)) \<subseteq> set (timers st)"
proof -
  let ?st1 = "(emit (Call_onSubscriptionTerminate a) st)
      \<lparr>subscriptions := filter (\<lambda>kv. fst kv \<noteq> js_key (Option.bind (heap st a) sub_id))
                          (subscriptions st)\<rparr>"
  have t: "timers ?st1 = timers st" by (simp add: emit_def)
  show ?thesis
  proof (cases "subscriptions ?st1 = []")
    case True
    have "onSubscriptionTerminate a st = Subscriber_close ?st1"
      using True by (simp add: onSubscriptionTerminate_def Let_def emit_def)
    then show ?thesis
      using timers_Subscriber_close_no_subscriptions [OF True] t by simp
  next
    case False
    then have "onSubscriptionTerminate a st = ?st1"
      by (simp add: onSubscriptionTerminate_def Let_def emit_def)
    then show ?thesis using t by simp
  qed
qed

lemma subscriptions_terminateDialog [simp]:
  "subscriptions (terminateDialog a st) = subscriptions st"
  by (simp add: terminateDialog_def upd_sub_def emit_def split: option.splits)

lemma timers_terminateDialog [simp]:
  "timers (terminateDialog a st) = timers st"
  by (simp add: terminateDialog_def upd_sub_def emit_def split: option.splits)

lemma subscriptions_clearTimeout [simp]: "subscriptions (clearTimeout h st) = subscriptions st"
  by (simp add: clearTimeout_def split: option.splits)

lemma Subscription_close_subscriptions:
  "heap st a = Some this \<Longrightarrow>
   subscriptions (Subscription_close a st)
     = filter (\<lambda>kv. fst kv \<noteq> js_key (sub_id this)) (subscriptions st)"
  by (simp add: Subscription_close_def Let_def subscriptions_onSubscriptionTerminate
      heap_terminateDialog upd_sub_def)

lemma Subscription_close_timers:
  "heap st a = Some this \<Longrightarrow>
   set (timers (Subscription_close a st)) \<subseteq> set (timers (clearTimeout (sub_N this) st))"
proof -
  assume h: "heap st a = Some this"
  let ?st1 = "upd_sub a (\<lambda>s. s\<lparr>sub_state := ''terminated''\<rparr>) st"
  let ?st2 = "terminateDialog a ?st1"
  have h1: "heap ?st1 a = Some (this\<lparr>sub_state := ''terminated''\<rparr>)"
    using h by (simp add: upd_sub_def)
  have h2: "Option.bind (heap ?st2 a) sub_N = sub_N this"
    using h1 by (simp add: heap_terminateDialog)
  have "set (timers (Subscription_close a st)) \<subseteq> set (timers (clearTimeout (sub_N this) ?st2))"
    using h h2 timers_onSubscriptionTerminate by (simp add: Subscription_close_def Let_def)
  also have "timers (clearTimeout (sub_N this) ?st2) = timers (clearTimeout (sub_N this) st)"
    by (simp add: clearTimeout_def upd_sub_def split: option.splits)
  finally show ?thesis .
qed

lemma log_onFailure [simp]: "log (onFailure r c st) = log st @ [OnFailure r c]"
  by (simp add: onFailure_def emit_def)

lemma heap_onFailure [simp]: "heap (onFailure r c st) = heap st"
  by (simp add: onFailure_def emit_def)

lemma subscriptions_onFailure [simp]: "subscriptions (onFailure r c st) = subscriptions st"
  by (simp add: onFailure_def emit_def)

lemma timers_onFailure [simp]: "timers (onFailure r c st) = timers st"
  by (simp add: onFailure_def emit_def)

lemma error_codes_set:
  "set error_codes = {404,405,410,416,480,481,482,483,484,485,489,501,604}"
  by (simp add: error_codes_def)

lemma Subscription_receiveRequest_pending_eq:
  "heap st a = Some this \<Longrightarrow>
   Subscription_receiveRequest_pending a ss st =
     st\<lparr>heap := (heap st)(a \<mapsto> this\<lparr>sub_expires := js_or (ss_expires ss) (sub_expires this),
                                     sub_N := Some (next_timer st)\<rparr>),
        timers := timers (clearTimeout (sub_N this) st)
                    @ [(next_timer st, SubscriptionTimer a, js_or (ss_expires ss) (sub_expires this) * 1000)],
        next_timer := Suc (next_timer st)\<rparr>"
  by (simp add: Subscription_receiveRequest_pending_def Let_def upd_sub_def setTimeout_def
      clearTimeout_def split: option.splits)

section \<open>Responses to a renewal\<close>

text \<open>
  C6: a response to a renewal SUBSCRIBE whose status code is one of 404, 405, 410, 416, 480,
  481, 482, 483, 484, 485, 489, 501, 604 closes the Subscription and then reports failure with
  the response itself and no cause, whatever Expires value the response carries: the
  Subscription ends terminated and without a dialog, its entry has left the subscriptions
  map and its watchdog is no longer live.
\<close>

theorem renewal_error_code_terminates:
  assumes "heap st a = Some this"
    and "status_code response \<in> {404,405,410,416,480,481,482,483,484,485,489,501,604}"
  shows "Subscription_subscribe_receiveResponse a response st
           = onFailure (Some response) None (Subscription_close a st)
         \<and> heap (Subscription_subscribe_receiveResponse a response st) a
             = Some (this\<lparr>sub_state := ''terminated'', sub_dialog := None\<rparr>)
         \<and> js_key (sub_id this)
             \<notin> fst ` set (subscriptions (Subscription_subscribe_receiveResponse a response st))
         \<and> sub_N this
             \<notin> Some ` fst ` set (timers (Subscription_subscribe_receiveResponse a response st))
         \<and> log (Subscription_subscribe_receiveResponse a response st)
             = log (Subscription_close a st) @ [OnFailure (Some response) None]"
proof -
  have c: "status_code response \<in> set error_codes"
    using assms(2) unfolding error_codes_set .
  have e: "Subscription_subscribe_receiveResponse a response st
             = onFailure (Some response) None (Subscription_close a st)"
    using assms(1) c by (simp add: Subscription_subscribe_receiveResponse_def)
  have t: "sub_N this \<notin> Some ` fst ` set (timers (Subscription_close a st))"
    using Subscription_close_timers [OF assms(1)]
    by (auto simp add: clearTimeout_def split: option.splits)
  show ?thesis
    using assms(1) t
    by (auto simp add: e Subscription_close_heap Subscription_close_subscriptions)
qed

theorem renewal_error_code_witness:
  "heap ex_active 0 = Some ex_sub
   \<and> status_code (ex_response 480 (Some 120)) = 480
   \<and> Subscription_subscribe_receiveResponse 0 (ex_response 480 (Some 120)) ex_active
       = onFailure (Some (ex_response 480 (Some 120))) None (Subscription_close 0 ex_active)
   \<and> heap (Subscription_subscribe_receiveResponse 0 (ex_response 480 (Some 120)) ex_active) 0
       = Some (ex_sub\<lparr>sub_state := ''terminated'', sub_dialog := None\<rparr>)"
proof -
  have h: "heap ex_active 0 = Some ex_sub"
    by (simp add: ex_active_def)
  have c: "status_code (ex_response 480 (Some 120)) = 480"
    by (simp add: ex_response_def)
  have m: "status_code (ex_response 480 (Some 120))
             \<in> {404,405,410,416,480,481,482,483,484,485,489,501,604}"
    by (simp add: c)
  show ?thesis
    using renewal_error_code_terminates [OF h m] h c by blast
qed

section \<open>NOTIFY with Subscription-State active\<close>

text \<open>
  C4, as stated, fails in its "only if": a Subscription that is already active and receives a
  matching NOTIFY with Subscription-State active hands the request to the application again.
\<close>

theorem notify_active_delivery_counterexample:
  "sub_state ex_sub = ''active'' \<and> heap ex_active 0 = Some ex_sub
   \<and> fst (matchEvent (ex_notify ''active'' (Some 60)) ex_active)
   \<and> ReceiveInfo (ex_notify ''active'' (Some 60))
        \<in> set (log (Subscription_receiveRequest 0 (ex_notify ''active'' (Some 60)) False ex_active))"
  by (simp add: ex_sub_def ex_active_def ex_wait_def ex_notify_def matchEvent_def
      Subscription_receiveRequest_def Let_def emit_def upd_sub_def
      Subscription_receiveRequest_pending_def setTimeout_def clearTimeout_def)

text \<open>
  C4, amended: for every accepted NOTIFY with Subscription-State active (the first one of the
  dialog, or a later one that matches the event) received by a Subscription in whatever
  state, the Subscription becomes active, takes the expires of the header (keeping its own
  when the header gives none or zero), cancels its watchdog and arms a new one for that many
  seconds; the request is answered with 200 and then handed to the application, whether or
  not the Subscription was active before.
\<close>

theorem notify_active_always_delivered:
  assumes "heap st a = Some this"
    and "initial \<or> fst (matchEvent request st)"
    and "rq_subscription_state request = Some ss"
    and "ss_state ss = ''active''"
  shows "heap (Subscription_receiveRequest a request initial st) a
           = Some (this\<lparr>sub_state := ''active'',
                        sub_expires := js_or (ss_expires ss) (sub_expires this),
                        sub_N := Some (next_timer st)\<rparr>)
         \<and> timers (Subscription_receiveRequest a request initial st)
           = timers (clearTimeout (sub_N this) st)
               @ [(next_timer st, SubscriptionTimer a,
                   js_or (ss_expires ss) (sub_expires this) * 1000)]
         \<and> log (Subscription_receiveRequest a request initial st)
           = log st @ [Reply 200 ''OK'' [''Contact: <'' @ contact st @ ''>''], ReceiveInfo request]"
proof -
  have m: "(if initial then (True, st) else matchEvent request st) = (True, st)"
    using assms(2) by (auto simp add: matchEvent_def split: if_splits)
  let ?st3 = "emit (ReceiveInfo request)
                (upd_sub a (\<lambda>s. s\<lparr>sub_state := ''active''\<rparr>)
                   (emit (Reply 200 ''OK'' [''Contact: <'' @ contact st @ ''>'']) st))"
  have h3: "heap ?st3 a = Some (this\<lparr>sub_state := ''active''\<rparr>)"
    using assms(1) by (simp add: emit_def upd_sub_def)
  have e: "Subscription_receiveRequest a request initial st
             = Subscription_receiveRequest_pending a ss ?st3"
    using assms(1,3,4) by (simp add: Subscription_receiveRequest_def m Let_def)
  show ?thesis
    unfolding e Subscription_receiveRequest_pending_eq [OF h3]
    by (simp add: emit_def upd_sub_def clearTimeout_def split: option.splits)
qed

theorem notify_active_always_delivered_witness:
  "heap ex_active 0 = Some ex_sub \<and> sub_state ex_sub = ''active''
   \<and> fst (matchEvent (ex_notify ''active'' (Some 60)) ex_active)
   \<and> timers (Subscription_receiveRequest 0 (ex_notify ''active'' (Some 60)) False ex_active)
       = [(2, SubscriptionTimer 0, 60000)]
   \<and> log (Subscription_receiveRequest 0 (ex_notify ''active'' (Some 60)) False ex_active)
       = [Reply 200 ''OK'' [''Contact: <<sip:alice@198.51.100.7;transport=ws>>''],
          ReceiveInfo (ex_notify ''active'' (Some 60))]"
proof -
  have h: "heap ex_active 0 = Some ex_sub"
    by (simp add: ex_active_def)
  have m: "fst (matchEvent (ex_notify ''active'' (Some 60)) ex_active)"
    by (simp add: matchEvent_def ex_notify_def ex_active_def ex_wait_def)
  then have m': "False \<or> fst (matchEvent (ex_notify ''active'' (Some 60)) ex_active)"
    by simp
  have s: "rq_subscription_state (ex_notify ''active'' (Some 60))
             = Some \<lparr>ss_state = ''active'', ss_expires = Some 60, ss_reason = None\<rparr>"
    by (simp add: ex_notify_def)
  have t: "ss_state \<lparr>ss_state = ''active'', ss_expires = Some 60, ss_reason = None\<rparr> = ''active''"
    by simp
  show ?thesis
    using notify_active_always_delivered [OF h m' s t] h m
    by (simp add: ex_active_def ex_wait_def ex_sub_def clearTimeout_def js_or_def)
qed

section \<open>The 2xx response to the initial SUBSCRIBE\<close>

text \<open>
  C1, as stated, fails for a granted lifetime of zero: \<open>Expires: 0\<close> is present and not
  greater than the requested 180, yet the Subscriber does not re-arm its watchdog; it closes
  and reports \<open>EXPIRES_HEADER_MISSING\<close>.
\<close>

theorem initial_2xx_expires_zero_counterexample:
  "is_2xx (status_code (ex_response 200 (Some 0)))
   \<and> rs_expires (ex_response 200 (Some 0)) = Some 0 \<and> 0 \<le> s_expires ex_wait
   \<and> Subscriber_subscribe_receiveResponse (ex_response 200 (Some 0)) ex_wait
       = onFailure None (Some EXPIRES_HEADER_MISSING) (Subscriber_close ex_wait)
   \<and> s_state (Subscriber_subscribe_receiveResponse (ex_response 200 (Some 0)) ex_wait)
       = Some ''terminated''
   \<and> timers (Subscriber_subscribe_receiveResponse (ex_response 200 (Some 0)) ex_wait) = []
   \<and> log (Subscriber_subscribe_receiveResponse (ex_response 200 (Some 0)) ex_wait)
       = [OnTerminate, OnFailure None (Some EXPIRES_HEADER_MISSING)]"
  by (simp add: ex_response_def ex_wait_def is_2xx_def is_1xx_def
      Subscriber_subscribe_receiveResponse_def Let_def js_truthy_def js_le_def
      Subscriber_close_def clearTimeout_def onFailure_def emit_def js_key_undefined_def)

text \<open>
  C1, amended: for every 2xx response to the initial SUBSCRIBE, if the Expires value \<open>e\<close> is
  present, not zero and at most the requested expires, the previous watchdog is cancelled and
  a new one is armed for exactly \<open>e * 1000\<close> ms, \<open>route_set_2xx\<close>, \<open>to_tag_2xx\<close> and
  \<open>initial_local_seqnum\<close> are captured from the response, and nothing is closed or reported;
  when \<open>e\<close> is below the requested value, the timer armed does not carry the requested
  value. If the Expires header is absent, the Subscriber runs \<open>close()\<close> and then reports
  failure with cause \<open>EXPIRES_HEADER_MISSING\<close>; if the value is greater than the requested
  expires, it runs \<open>close()\<close> and then reports failure with cause \<open>INVALID_EXPIRES_HEADER\<close>.
\<close>

theorem initial_2xx_expires:
  assumes "is_2xx (status_code response)"
  shows "(rs_expires response = Some e \<and> 0 < e \<and> e \<le> s_expires st \<longrightarrow>
            timers (Subscriber_subscribe_receiveResponse response st)
              = timers (clearTimeout (s_N st) st) @ [(next_timer st, SubscriberTimer, e * 1000)]
            \<and> s_N (Subscriber_subscribe_receiveResponse response st) = Some (next_timer st)
            \<and> route_set_2xx (Subscriber_subscribe_receiveResponse response st)
                = Some (rev (rs_record_route response))
            \<and> to_tag_2xx (Subscriber_subscribe_receiveResponse response st) = rs_to_tag response
            \<and> initial_local_seqnum (Subscriber_subscribe_receiveResponse response st)
                = Some (rs_cseq response)
            \<and> s_state (Subscriber_subscribe_receiveResponse response st) = s_state st
            \<and> log (Subscriber_subscribe_receiveResponse response st) = log st
            \<and> (e < s_expires st \<longrightarrow>
                 last (timers (Subscriber_subscribe_receiveResponse response st))
                   \<noteq> (next_timer st, SubscriberTimer, s_expires st * 1000)))
         \<and> (rs_expires response = None \<longrightarrow>
              Subscriber_subscribe_receiveResponse response st
                = onFailure None (Some EXPIRES_HEADER_MISSING) (Subscriber_close st))
         \<and> (rs_expires response = Some e \<and> s_expires st < e \<longrightarrow>
              Subscriber_subscribe_receiveResponse response st
                = onFailure None (Some INVALID_EXPIRES_HEADER) (Subscriber_close st))"
proof -
  have n: "\<not> is_1xx (status_code response)"
    using assms by (simp add: is_1xx_def is_2xx_def)
  show ?thesis
    using assms n
    by (auto simp add: Subscriber_subscribe_receiveResponse_def Let_def js_truthy_def js_le_def
        js_num_def setTimeout_def clearTimeout_def split: option.splits)
qed

theorem initial_2xx_expires_witness:
  "is_2xx (status_code (ex_response 200 (Some 120)))
   \<and> s_expires ex_wait = 180
   \<and> timers (Subscriber_subscribe_receiveResponse (ex_response 200 (Some 120)) ex_wait)
       = [(1, SubscriberTimer, 120000)]
   \<and> last (timers (Subscriber_subscribe_receiveResponse (ex_response 200 (Some 120)) ex_wait))
       \<noteq> (1, SubscriberTimer, 180000)
   \<and> Subscriber_subscribe_receiveResponse (ex_response 200 None) ex_wait
       = onFailure None (Some EXPIRES_HEADER_MISSING) (Subscriber_close ex_wait)
   \<and> Subscriber_subscribe_receiveResponse (ex_response 200 (Some 200)) ex_wait
       = onFailure None (Some INVALID_EXPIRES_HEADER) (Subscriber_close ex_wait)"
proof -
  have c: "is_2xx (status_code (ex_response 200 x))" for x
    by (simp add: ex_response_def is_2xx_def)
  have x: "s_expires ex_wait = 180" "next_timer ex_wait = 1"
    "timers (clearTimeout (s_N ex_wait) ex_wait) = []"
    by (simp_all add: ex_wait_def clearTimeout_def)
  have r: "rs_expires (ex_response 200 y) = y" for y
    by (simp add: ex_response_def)
  show ?thesis
    using initial_2xx_expires [OF c, of "Some 120" 120 ex_wait]
      initial_2xx_expires [OF c, of None 0 ex_wait]
      initial_2xx_expires [OF c, of "Some 200" 200 ex_wait]
    by (simp add: c x r)
qed

section \<open>Sending, the constructor and re-arming: auxiliary facts\<close>

lemma Subscription_send_eq:
  "heap st a = Some this \<Longrightarrow>
   Subscription_send a request st =
     st\<lparr>heap := (heap st)(a \<mapsto> this\<lparr>sub_N := Some (next_timer st)\<rparr>),
        timers := timers (clearTimeout (sub_N this) st)
                    @ [(next_timer st, SubscriptionTimer a, T1 st * 64)],
        next_timer := Suc (next_timer st),
        log := log st @ [Send request]\<rparr>"
  by (simp add: Subscription_send_def Let_def upd_sub_def setTimeout_def emit_def
      clearTimeout_def split: option.splits)

lemma Subscription_unsubscribe_eq:
  "heap st a = Some this \<Longrightarrow>
   Subscription_unsubscribe a st =
     st\<lparr>heap := (heap st)(a \<mapsto> this\<lparr>sub_state := ''terminated'', sub_N := Some (next_timer st)\<rparr>),
        cseq := cseq st + 1,
        timers := timers (clearTimeout (sub_N this) st)
                    @ [(next_timer st, SubscriptionTimer a, T1 st * 64)],
        next_timer := Suc (next_timer st),
        log := log st @ [Send (setHeader ''Expires'' ''0''
                                 (fst (createSubscribeRequest (sub_dialog this) None st)))]\<rparr>"
proof -
  assume h: "heap st a = Some this"
  let ?st1 = "upd_sub a (\<lambda>s. s\<lparr>sub_state := ''terminated''\<rparr>) st"
  let ?st2 = "?st1\<lparr>cseq := cseq st + 1\<rparr>"
  have h2: "heap ?st2 a = Some (this\<lparr>sub_state := ''terminated''\<rparr>)"
    using h by (simp add: upd_sub_def)
  have r: "fst (createSubscribeRequest (sub_dialog this) None ?st1)
             = fst (createSubscribeRequest (sub_dialog this) None st)"
    by (simp add: createSubscribeRequest_def Let_def upd_sub_def getAllowedMethods_def)
  have s: "snd (createSubscribeRequest (sub_dialog this) None ?st1) = ?st2"
    by (simp add: createSubscribeRequest_def Let_def upd_sub_def)
  have "Subscription_unsubscribe a st =
          Subscription_send a (setHeader ''Expires'' ''0''
                                 (fst (createSubscribeRequest (sub_dialog this) None st))) ?st2"
    using h r s by (simp add: Subscription_unsubscribe_def Let_def split_beta)
  then show ?thesis
    unfolding Subscription_send_eq [OF h2]
    by (simp add: upd_sub_def clearTimeout_def split: option.splits)
qed

lemma log_onSubscriptionTerminate:
  "\<exists>rest. log (onSubscriptionTerminate a st) = log st @ Call_onSubscriptionTerminate a # rest"
  by (simp add: onSubscriptionTerminate_def Let_def emit_def Subscriber_close_no_subscriptions
      clearTimeout_def split: option.splits)

lemma Subscription_close_log_dialog:
  assumes "heap st a = Some this" and "sub_dialog this = Some d"
  shows "\<exists>rest. log (Subscription_close a st) = log st @ DialogTerminate (dlg_id d) # rest"
proof -
  let ?st1 = "upd_sub a (\<lambda>s. s\<lparr>sub_state := ''terminated''\<rparr>) st"
  let ?st2 = "terminateDialog a ?st1"
  let ?st3 = "clearTimeout (Option.bind (heap ?st2 a) sub_N) ?st2"
  have "log ?st3 = log st @ [DialogTerminate (dlg_id d)]"
    using assms
    by (simp add: terminateDialog_def upd_sub_def emit_def clearTimeout_def split: option.splits)
  moreover obtain rest where
    "log (onSubscriptionTerminate a ?st3) = log ?st3 @ Call_onSubscriptionTerminate a # rest"
    using log_onSubscriptionTerminate by blast
  ultimately show ?thesis
    using assms(1) by (simp add: Subscription_close_def Let_def)
qed


lemma matchEvent_True: "fst (matchEvent request st) \<Longrightarrow> matchEvent request st = (True, st)"
  by (auto simp add: matchEvent_def split: if_splits)





lemma Subscription_new_eq:
  "dlg_id (mk request ''UAS'') = Some i \<Longrightarrow>
   Subscription_new mk request state0 expires st
     = Subscription_receiveRequest (next_ref st) request True (registered mk request state0 expires st)"
  by (auto simp add: Subscription_new_def createConfirmedDialog_def Let_def js_truthy_object_def
      upd_sub_def js_key_def registered_def
      intro!: arg_cong [where f = "Subscription_receiveRequest (next_ref st) request True"])

lemma Subscription_new_throw:
  "dlg_id (mk request ''UAS'') = None \<Longrightarrow>
   Subscription_new mk request state0 expires st
     = emit (Thrown ''TypeError'') (unregistered mk request state0 expires st)"
  by (auto simp add: Subscription_new_def createConfirmedDialog_def Let_def js_truthy_object_def
      upd_sub_def unregistered_def
      intro!: arg_cong [where f = "emit (Thrown ''TypeError'')"])

lemma clearTimeout_None: "clearTimeout None st = st"
  by (simp add: clearTimeout_def)

lemma Subscription_receiveRequest_rearm:
  assumes "heap st a = Some this"
    and "initial \<or> fst (matchEvent request st)"
    and "rq_subscription_state request = Some ss"
    and "ss_state ss = ''pending'' \<or> ss_state ss = ''active''"
  shows "map_option sub_expires (heap (Subscription_receiveRequest a request initial st) a)
           = Some (js_or (ss_expires ss) (sub_expires this))
         \<and> timers (Subscription_receiveRequest a request initial st)
           = timers (clearTimeout (sub_N this) st)
               @ [(next_timer st, SubscriptionTimer a,
                   js_or (ss_expires ss) (sub_expires this) * 1000)]"
proof -
  have m: "(if initial then (True, st) else matchEvent request st) = (True, st)"
    using assms(2) by (auto simp add: matchEvent_def split: if_splits)
  let ?st1 = "emit (Reply 200 ''OK'' [''Contact: <'' @ contact st @ ''>'']) st"
  let ?st3 = "emit (ReceiveInfo request) (upd_sub a (\<lambda>s. s\<lparr>sub_state := ''active''\<rparr>) ?st1)"
  have h1: "heap ?st1 a = Some this"
    using assms(1) by (simp add: emit_def)
  have h3: "heap ?st3 a = Some (this\<lparr>sub_state := ''active''\<rparr>)"
    using assms(1) by (simp add: emit_def upd_sub_def)
  from assms(4) show ?thesis
  proof
    assume pen: "ss_state ss = ''pending''"
    have "Subscription_receiveRequest a request initial st
            = Subscription_receiveRequest_pending a ss ?st1"
      using assms(1,3) pen by (simp add: Subscription_receiveRequest_def m Let_def)
    then show ?thesis
      unfolding Subscription_receiveRequest_pending_eq [OF h1]
      by (simp add: emit_def clearTimeout_def split: option.splits)
  next
    assume act: "ss_state ss = ''active''"
    have "Subscription_receiveRequest a request initial st
            = Subscription_receiveRequest_pending a ss ?st3"
      using assms(1,3) act by (simp add: Subscription_receiveRequest_def m Let_def)
    then show ?thesis
      unfolding Subscription_receiveRequest_pending_eq [OF h3]
      by (simp add: emit_def upd_sub_def clearTimeout_def split: option.splits)
  qed
qed

section \<open>Unsubscribing a Subscription\<close>

text \<open>
  C5, as stated, fails in its last part: \<open>unsubscribe()\<close> on an active Subscription leaves
  the dialog in place and \<open>dialog.terminate()\<close> is not called.
\<close>

theorem unsubscribe_dialog_counterexample:
  "heap ex_active 0 = Some ex_sub \<and> sub_dialog ex_sub = Some ex_dialog
   \<and> map_option sub_dialog (heap (Subscription_unsubscribe 0 ex_active) 0) = Some (Some ex_dialog)
   \<and> DialogTerminate (dlg_id ex_dialog) \<notin> set (log (Subscription_unsubscribe 0 ex_active))"
  by (simp add: ex_active_def ex_wait_def ex_sub_def Subscription_unsubscribe_eq [of _ _ ex_sub] setHeader_def)

text \<open>
  C5, amended: for every Subscription in any state, \<open>unsubscribe()\<close> moves the state to
  terminated, sends a SUBSCRIBE carrying the header \<open>Expires: 0\<close>, cancels the watchdog and
  arms it anew for 64*T1, and ignores every response. The dialog and the entry in the
  subscriptions map are kept by \<open>unsubscribe()\<close>; the dialog is torn down later, when that
  watchdog fires and \<open>timer_N\<close> finds the state terminated.
\<close>

theorem unsubscribe_defers_dialog_teardown:
  assumes "heap st a = Some this"
  shows "heap (Subscription_unsubscribe a st) a
           = Some (this\<lparr>sub_state := ''terminated'', sub_N := Some (next_timer st)\<rparr>)
         \<and> log (Subscription_unsubscribe a st)
           = log st @ [Send (setHeader ''Expires'' ''0''
                               (fst (createSubscribeRequest (sub_dialog this) None st)))]
         \<and> or_headers (setHeader ''Expires'' ''0''
                          (fst (createSubscribeRequest (sub_dialog this) None st)))
           = [(''Expires'', ''0'')]
         \<and> timers (Subscription_unsubscribe a st)
           = timers (clearTimeout (sub_N this) st)
               @ [(next_timer st, SubscriptionTimer a, T1 st * 64)]
         \<and> subscriptions (Subscription_unsubscribe a st) = subscriptions st
         \<and> Subscription_unsubscribe_receiveResponse a response (Subscription_unsubscribe a st)
           = Subscription_unsubscribe a st
         \<and> heap (Subscription_timer_N a (Subscription_unsubscribe a st)) a
           = Some (this\<lparr>sub_state := ''terminated'', sub_N := Some (next_timer st),
                        sub_dialog := None\<rparr>)
         \<and> (sub_dialog this = Some d \<longrightarrow>
              (\<exists>rest. log (Subscription_timer_N a (Subscription_unsubscribe a st))
                        = log (Subscription_unsubscribe a st) @ DialogTerminate (dlg_id d) # rest))"
proof -
  let ?u = "Subscription_unsubscribe a st"
  let ?this' = "this\<lparr>sub_state := ''terminated'', sub_N := Some (next_timer st)\<rparr>"
  have h': "heap ?u a = Some ?this'"
    using assms by (simp add: Subscription_unsubscribe_eq)
  have t: "Subscription_timer_N a ?u = Subscription_close a ?u"
    using h' by (simp add: Subscription_timer_N_def)
  have d: "sub_dialog this = Some d \<Longrightarrow>
           \<exists>rest. log (Subscription_close a ?u) = log ?u @ DialogTerminate (dlg_id d) # rest"
    using Subscription_close_log_dialog [OF h', of d] by simp
  have c: "heap (Subscription_close a ?u) a
             = Some (this\<lparr>sub_state := ''terminated'', sub_N := Some (next_timer st),
                          sub_dialog := None\<rparr>)"
    by (simp add: Subscription_close_heap [OF h'])
  have r: "or_headers (setHeader ''Expires'' ''0''
                          (fst (createSubscribeRequest (sub_dialog this) None st)))
           = [(''Expires'', ''0'')]"
    by (simp add: setHeader_def createSubscribeRequest_def Let_def)
  have l: "log ?u = log st @ [Send (setHeader ''Expires'' ''0''
                               (fst (createSubscribeRequest (sub_dialog this) None st)))]"
    by (simp add: Subscription_unsubscribe_eq [OF assms])
  have tm: "timers ?u = timers (clearTimeout (sub_N this) st)
               @ [(next_timer st, SubscriptionTimer a, T1 st * 64)]"
    by (simp add: Subscription_unsubscribe_eq [OF assms])
  have sb: "subscriptions ?u = subscriptions st"
    by (simp add: Subscription_unsubscribe_eq [OF assms])
  have rr: "Subscription_unsubscribe_receiveResponse a response ?u = ?u"
    by (simp add: Subscription_unsubscribe_receiveResponse_def)
  show ?thesis
    unfolding t using h' l r tm sb rr c d by blast
qed

theorem unsubscribe_defers_dialog_teardown_witness:
  "heap ex_active 0 = Some ex_sub \<and> sub_dialog ex_sub = Some ex_dialog
   \<and> heap (Subscription_unsubscribe 0 ex_active) 0
       = Some (ex_sub\<lparr>sub_state := ''terminated'', sub_N := Some 2\<rparr>)
   \<and> timers (Subscription_unsubscribe 0 ex_active) = [(2, SubscriptionTimer 0, 32000)]
   \<and> (\<exists>rest. log (Subscription_timer_N 0 (Subscription_unsubscribe 0 ex_active))
               = log (Subscription_unsubscribe 0 ex_active) @ DialogTerminate (Some ''c1t1r9'') # rest)"
proof -
  have h: "heap ex_active 0 = Some ex_sub"
    by (simp add: ex_active_def)
  have d: "sub_dialog ex_sub = Some ex_dialog"
    by (simp add: ex_sub_def)
  have x: "next_timer ex_active = 2" "T1 ex_active * 64 = 32000"
    "timers (clearTimeout (sub_N ex_sub) ex_active) = []" "dlg_id ex_dialog = Some ''c1t1r9''"
    by (simp_all add: ex_active_def ex_wait_def ex_sub_def ex_dialog_def clearTimeout_def)
  note T = unsubscribe_defers_dialog_teardown [OF h, of "ex_response 200 None" ex_dialog]
  have a: "heap (Subscription_unsubscribe 0 ex_active) 0
             = Some (ex_sub\<lparr>sub_state := ''terminated'', sub_N := Some (next_timer ex_active)\<rparr>)"
    using T by blast
  have b: "timers (Subscription_unsubscribe 0 ex_active)
             = timers (clearTimeout (sub_N ex_sub) ex_active)
                 @ [(next_timer ex_active, SubscriptionTimer 0, T1 ex_active * 64)]"
    using T by blast
  have c: "\<exists>rest. log (Subscription_timer_N 0 (Subscription_unsubscribe 0 ex_active))
               = log (Subscription_unsubscribe 0 ex_active) @ DialogTerminate (dlg_id ex_dialog) # rest"
    using T d by blast
  show ?thesis
    using h d a b c unfolding x by simp
qed

section \<open>Constructing a Subscription\<close>




section \<open>expires=0 on a NOTIFY\<close>

text \<open>
  C10: on an accepted NOTIFY whose Subscription-State is pending or active and carries
  \<open>expires=0\<close>, exactly as on one that carries no \<open>expires\<close> parameter, the previously known
  value is kept. \<open>Subscriber.receiveRequest\<close> constructs the Subscription with the
  Subscriber's own expires, which is also the value the new Subscription ends with and arms
  its watchdog for (it arms none when its dialog has no id and the constructor throws);
  \<open>Subscription.receiveRequest\<close> keeps the Subscription's expires and re-arms the watchdog
  for it.
\<close>

theorem notify_expires_zero_as_absent:
  assumes "rq_subscription_state request = Some ss"
    and "ss_expires ss = Some 0 \<or> ss_expires ss = None"
    and "ss_state ss = ''pending'' \<or> ss_state ss = ''active''"
  shows "(fst (matchEvent request st) \<longrightarrow>
            Subscriber_receiveRequest mk request st
              = Subscription_new mk request (ss_state ss) (s_expires st) (clearTimeout (s_N st) st)
            \<and> map_option sub_expires (heap (Subscriber_receiveRequest mk request st) (next_ref st))
                = Some (s_expires st)
            \<and> timers (Subscriber_receiveRequest mk request st)
                = timers (clearTimeout (s_N st) st)
                    @ (if dlg_id (mk request ''UAS'') = None then []
                       else [(next_timer st, SubscriptionTimer (next_ref st),
                              s_expires st * 1000)]))
         \<and> (heap st a = Some this \<and> (initial \<or> fst (matchEvent request st)) \<longrightarrow>
              map_option sub_expires (heap (Subscription_receiveRequest a request initial st) a)
                = Some (sub_expires this)
              \<and> timers (Subscription_receiveRequest a request initial st)
                = timers (clearTimeout (sub_N this) st)
                    @ [(next_timer st, SubscriptionTimer a, sub_expires this * 1000)])"
proof -
  have z: "js_or (ss_expires ss) d = d" for d
    using assms(2) by (auto simp add: js_or_def)
  have sub: "map_option sub_expires (heap (Subscription_receiveRequest a request initial st) a)
                = Some (sub_expires this)
              \<and> timers (Subscription_receiveRequest a request initial st)
                = timers (clearTimeout (sub_N this) st)
                    @ [(next_timer st, SubscriptionTimer a, sub_expires this * 1000)]"
    if "heap st a = Some this" and "initial \<or> fst (matchEvent request st)"
    using Subscription_receiveRequest_rearm [OF that assms(1,3)] by (simp add: z)
  have subr: "Subscriber_receiveRequest mk request st
              = Subscription_new mk request (ss_state ss) (s_expires st) (clearTimeout (s_N st) st)
            \<and> map_option sub_expires (heap (Subscriber_receiveRequest mk request st) (next_ref st))
                = Some (s_expires st)
            \<and> timers (Subscriber_receiveRequest mk request st)
                = timers (clearTimeout (s_N st) st)
                    @ (if dlg_id (mk request ''UAS'') = None then []
                       else [(next_timer st, SubscriptionTimer (next_ref st),
                              s_expires st * 1000)])"
    if me: "fst (matchEvent request st)"
  proof -
    let ?c = "clearTimeout (s_N st) st"
    let ?r = "registered mk request (ss_state ss) (s_expires st) ?c"
    let ?u = "unregistered mk request (ss_state ss) (s_expires st) ?c"
    have e: "Subscriber_receiveRequest mk request st
              = Subscription_new mk request (ss_state ss) (s_expires st) ?c"
      using assms(1,3) by (auto simp add: Subscriber_receiveRequest_def matchEvent_True [OF me] z)
    have nr: "next_ref ?c = next_ref st" "next_timer ?r = next_timer st"
      "timers ?r = timers ?c"
      by (simp_all add: clearTimeout_def registered_def split: option.splits)
    show ?thesis
    proof (cases "dlg_id (mk request ''UAS'')")
      case None
      have n: "Subscription_new mk request (ss_state ss) (s_expires st) ?c
                 = emit (Thrown ''TypeError'') ?u"
        by (rule Subscription_new_throw [of mk request "ss_state ss" "s_expires st" ?c, OF None])
      have "map_option sub_expires (heap (emit (Thrown ''TypeError'') ?u) (next_ref st))
              = Some (s_expires st)"
        by (simp add: emit_def unregistered_def nr)
      moreover have "timers (emit (Thrown ''TypeError'') ?u) = timers ?c"
        by (simp add: emit_def unregistered_def)
      ultimately show ?thesis
        unfolding e n using None by simp
    next
      case (Some i)
      note q = Subscription_new_eq [of mk request i "ss_state ss" "s_expires st" ?c, OF Some]
      obtain this' where h: "heap ?r (next_ref st) = Some this'"
        and x: "sub_expires this' = s_expires st" and n: "sub_N this' = None"
        by (simp add: registered_def nr)
      have i: "True \<or> fst (matchEvent request ?r)" by simp
      have ct: "timers (clearTimeout (sub_N this') ?r) = timers ?c"
        by (simp add: n nr clearTimeout_None)
      note R = Subscription_receiveRequest_rearm [OF h i assms(1,3), unfolded z x ct nr]
      show ?thesis
        unfolding e q nr using R Some by simp
    qed
  qed
  show ?thesis using sub subr by blast
qed

theorem notify_expires_zero_as_absent_witness:
  "fst (matchEvent (ex_notify ''active'' (Some 0)) ex_wait)
   \<and> map_option sub_expires
        (heap (Subscriber_receiveRequest ex_mk (ex_notify ''active'' (Some 0)) ex_wait) 0) = Some 180
   \<and> timers (Subscriber_receiveRequest ex_mk (ex_notify ''active'' (Some 0)) ex_wait)
       = [(1, SubscriptionTimer 0, 180000)]
   \<and> heap ex_active 0 = Some ex_sub
   \<and> fst (matchEvent (ex_notify ''pending'' None) ex_active)
   \<and> map_option sub_expires
        (heap (Subscription_receiveRequest 0 (ex_notify ''pending'' None) False ex_active) 0) = Some 180
   \<and> timers (Subscription_receiveRequest 0 (ex_notify ''pending'' None) False ex_active)
       = [(2, SubscriptionTimer 0, 180000)]
   \<and> fst (matchEvent (ex_notify ''active'' (Some 0)) ex_active)
   \<and> map_option sub_expires
        (heap (Subscription_receiveRequest 0 (ex_notify ''active'' (Some 0)) False ex_active) 0)
       = Some 180
   \<and> timers (Subscription_receiveRequest 0 (ex_notify ''active'' (Some 0)) False ex_active)
       = [(2, SubscriptionTimer 0, 180000)]"
proof -
  let ?z = "\<lparr>ss_state = ''active'', ss_expires = Some 0, ss_reason = None\<rparr>"
  let ?n = "\<lparr>ss_state = ''pending'', ss_expires = None, ss_reason = None\<rparr>"
  have s: "rq_subscription_state (ex_notify ''active'' (Some 0)) = Some ?z"
    "rq_subscription_state (ex_notify ''pending'' None) = Some ?n"
    by (simp_all add: ex_notify_def)
  have e: "ss_expires ?z = Some 0 \<or> ss_expires ?z = None"
    "ss_expires ?n = Some 0 \<or> ss_expires ?n = None"
    by simp_all
  have t: "ss_state ?z = ''pending'' \<or> ss_state ?z = ''active''"
    "ss_state ?n = ''pending'' \<or> ss_state ?n = ''active''"
    by simp_all
  have m: "fst (matchEvent (ex_notify ''active'' (Some 0)) ex_wait)"
    "fst (matchEvent (ex_notify ''pending'' None) ex_active)"
    "fst (matchEvent (ex_notify ''active'' (Some 0)) ex_active)"
    by (simp_all add: matchEvent_def ex_notify_def ex_active_def ex_wait_def)
  have g: "dlg_id (ex_mk (ex_notify ''active'' (Some 0)) ''UAS'') \<noteq> None"
    by (simp add: ex_mk_def ex_dialog_def)
  have h: "heap ex_active 0 = Some ex_sub"
    by (simp add: ex_active_def)
  have x: "s_expires ex_wait = 180" "next_ref ex_wait = 0" "next_timer ex_wait = 1"
    "timers (clearTimeout (s_N ex_wait) ex_wait) = []"
    "sub_expires ex_sub = 180" "next_timer ex_active = 2"
    "timers (clearTimeout (sub_N ex_sub) ex_active) = []"
    by (simp_all add: ex_wait_def ex_active_def ex_sub_def clearTimeout_def)
  note S = notify_expires_zero_as_absent [OF s(1) e(1) t(1), of ex_wait ex_mk 0 ex_sub False]
  note P = notify_expires_zero_as_absent [OF s(2) e(2) t(2), of ex_active ex_mk 0 ex_sub False]
  have a: "map_option sub_expires
        (heap (Subscriber_receiveRequest ex_mk (ex_notify ''active'' (Some 0)) ex_wait)
           (next_ref ex_wait)) = Some (s_expires ex_wait)"
    using S m(1) by blast
  note Q = notify_expires_zero_as_absent [OF s(1) e(1) t(1), of ex_active ex_mk 0 ex_sub False]
  have b0: "timers (Subscriber_receiveRequest ex_mk (ex_notify ''active'' (Some 0)) ex_wait)
       = timers (clearTimeout (s_N ex_wait) ex_wait)
           @ (if dlg_id (ex_mk (ex_notify ''active'' (Some 0)) ''UAS'') = None then []
              else [(next_timer ex_wait, SubscriptionTimer (next_ref ex_wait),
                     s_expires ex_wait * 1000)])"
    using S m(1) by blast
  have b: "timers (Subscriber_receiveRequest ex_mk (ex_notify ''active'' (Some 0)) ex_wait)
       = timers (clearTimeout (s_N ex_wait) ex_wait)
           @ [(next_timer ex_wait, SubscriptionTimer (next_ref ex_wait), s_expires ex_wait * 1000)]"
    using b0 g by simp
  have c': "map_option sub_expires
        (heap (Subscription_receiveRequest 0 (ex_notify ''active'' (Some 0)) False ex_active) 0)
         = Some (sub_expires ex_sub)"
    using Q m(3) h by blast
  have d': "timers (Subscription_receiveRequest 0 (ex_notify ''active'' (Some 0)) False ex_active)
       = timers (clearTimeout (sub_N ex_sub) ex_active)
           @ [(next_timer ex_active, SubscriptionTimer 0, sub_expires ex_sub * 1000)]"
    using Q m(3) h by blast
  have c: "map_option sub_expires
        (heap (Subscription_receiveRequest 0 (ex_notify ''pending'' None) False ex_active) 0)
         = Some (sub_expires ex_sub)"
    using P m(2) h by blast
  have d: "timers (Subscription_receiveRequest 0 (ex_notify ''pending'' None) False ex_active)
       = timers (clearTimeout (sub_N ex_sub) ex_active)
           @ [(next_timer ex_active, SubscriptionTimer 0, sub_expires ex_sub * 1000)]"
    using P m(2) h by blast
  show ?thesis
    using m h a b c d c' d' unfolding x by simp
qed

section \<open>Repeated close: auxiliary facts\<close>

lemma Subscription_unsubscribe_frame:
  "s_state (Subscription_unsubscribe a st) = s_state st
   \<and> s_id (Subscription_unsubscribe a st) = s_id st
   \<and> sessions (Subscription_unsubscribe a st) = sessions st
   \<and> subscriptions (Subscription_unsubscribe a st) = subscriptions st
   \<and> count_list (log (Subscription_unsubscribe a st)) OnTerminate = count_list (log st) OnTerminate"
proof (cases "heap st a")
  case None
  then show ?thesis by (simp add: Subscription_unsubscribe_def)
next
  case (Some this)
  show ?thesis by (simp add: Subscription_unsubscribe_eq [OF Some])
qed

lemma fold_unsubscribe_frame:
  "s_state (fold (\<lambda>kv. Subscription_unsubscribe (snd kv)) xs st) = s_state st
   \<and> s_id (fold (\<lambda>kv. Subscription_unsubscribe (snd kv)) xs st) = s_id st
   \<and> sessions (fold (\<lambda>kv. Subscription_unsubscribe (snd kv)) xs st) = sessions st
   \<and> subscriptions (fold (\<lambda>kv. Subscription_unsubscribe (snd kv)) xs st) = subscriptions st
   \<and> count_list (log (fold (\<lambda>kv. Subscription_unsubscribe (snd kv)) xs st)) OnTerminate
       = count_list (log st) OnTerminate"
proof (induction xs arbitrary: st)
  case Nil
  show ?case by simp
next
  case (Cons x xs)
  show ?case
    using Cons.IH [of "Subscription_unsubscribe (snd x) st"]
      Subscription_unsubscribe_frame [of "snd x" st]
    by simp
qed

lemma Subscriber_close_terminated:
  "s_state (Subscriber_close st) = Some ''terminated''"
  by (simp add: Subscriber_close_def Let_def emit_def fold_unsubscribe_frame clearTimeout_def
      split: option.splits)

lemma Subscriber_close_idem:
  "Subscriber_close (Subscriber_close st) = Subscriber_close st"
  using Subscriber_close_terminated [of st]
  by (simp add: Subscriber_close_def [of "Subscriber_close st"])

lemma Subscriber_close_funpow:
  "(Subscriber_close ^^ Suc n) st = Subscriber_close st"
  by (induction n) (simp_all add: Subscriber_close_idem)

lemma Subscriber_close_once:
  assumes "s_state st \<noteq> Some ''terminated''"
  shows "count_list (log (Subscriber_close st)) OnTerminate = count_list (log st) OnTerminate + 1
         \<and> sessions (Subscriber_close st) = removeAll (js_key_undefined (s_id st)) (sessions st)"
proof -
  let ?st2 = "clearTimeout (s_N st) (st\<lparr>s_state := Some ''terminated''\<rparr>)"
  have f: "s_id ?st2 = s_id st" "sessions ?st2 = sessions st" "log ?st2 = log st"
    by (simp_all add: clearTimeout_def split: option.splits)
  show ?thesis
    using assms fold_unsubscribe_frame [of "subscriptions ?st2" ?st2]
    by (simp add: Subscriber_close_def Let_def emit_def f)
qed


lemma onSubscriptionTerminate_count:
  "count_list (log (onSubscriptionTerminate a st)) (Call_onSubscriptionTerminate a)
     = count_list (log st) (Call_onSubscriptionTerminate a) + 1"
  by (simp add: onSubscriptionTerminate_def Let_def emit_def Subscriber_close_no_subscriptions
      clearTimeout_def split: option.splits)

lemma Subscription_close_count:
  assumes "heap st a = Some this"
  shows "count_list (log (Subscription_close a st)) (Call_onSubscriptionTerminate a)
           = count_list (log st) (Call_onSubscriptionTerminate a) + 1"
proof -
  let ?st1 = "upd_sub a (\<lambda>s. s\<lparr>sub_state := ''terminated''\<rparr>) st"
  let ?st2 = "terminateDialog a ?st1"
  let ?st3 = "clearTimeout (Option.bind (heap ?st2 a) sub_N) ?st2"
  have "count_list (log ?st3) (Call_onSubscriptionTerminate a)
          = count_list (log st) (Call_onSubscriptionTerminate a)"
    by (simp add: terminateDialog_def upd_sub_def emit_def clearTimeout_def split: option.splits)
  then show ?thesis
    using assms onSubscriptionTerminate_count [of a ?st3]
    by (simp add: Subscription_close_def Let_def)
qed

lemma onSubscriptionTerminate_empty_terminated:
  "subscriptions (onSubscriptionTerminate a st) = [] \<Longrightarrow>
   s_state (onSubscriptionTerminate a st) = Some ''terminated''"
  by (simp add: onSubscriptionTerminate_def Let_def emit_def Subscriber_close_terminated
      split: if_splits)

lemma Subscription_close_closed:
  assumes "heap st a = Some this"
  shows "closed_subscription a (Subscription_close a st)"
proof -
  let ?st1 = "upd_sub a (\<lambda>s. s\<lparr>sub_state := ''terminated''\<rparr>) st"
  let ?st2 = "terminateDialog a ?st1"
  let ?st3 = "clearTimeout (Option.bind (heap ?st2 a) sub_N) ?st2"
  have e: "Subscription_close a st = onSubscriptionTerminate a ?st3"
    using assms by (simp add: Subscription_close_def Let_def)
  have s: "subscriptions (Subscription_close a st) \<noteq> []
           \<or> s_state (Subscription_close a st) = Some ''terminated''"
    unfolding e using onSubscriptionTerminate_empty_terminated by blast
  have t: "sub_N this \<notin> Some ` fst ` set (timers (Subscription_close a st))"
    using Subscription_close_timers [OF assms]
    by (auto simp add: clearTimeout_def split: option.splits)
  show ?thesis
    using s t
    by (auto simp add: closed_subscription_def Subscription_close_heap [OF assms]
        Subscription_close_subscriptions [OF assms])
qed

lemma closed_subscription_emit:
  "closed_subscription a st \<Longrightarrow> closed_subscription a (emit e st)"
  by (simp add: closed_subscription_def emit_def split: option.splits)

lemma filter_fst_absent: "k \<notin> fst ` set xs \<Longrightarrow> filter (\<lambda>kv. fst kv \<noteq> k) xs = xs"
  by (induction xs) auto

lemma Subscription_close_again:
  assumes "closed_subscription a st"
  shows "Subscription_close a st = emit (Call_onSubscriptionTerminate a) st"
proof -
  obtain this where h: "heap st a = Some this"
    and c: "sub_state this = ''terminated''" "sub_dialog this = None"
      "sub_N this \<notin> Some ` fst ` set (timers st)"
      "js_key (sub_id this) \<notin> fst ` set (subscriptions st)"
      "subscriptions st \<noteq> [] \<or> s_state st = Some ''terminated''"
    using assms by (auto simp add: closed_subscription_def split: option.splits)
  have u: "upd_sub a (\<lambda>s. s\<lparr>sub_state := ''terminated''\<rparr>) st = st"
    using h c(1) by (simp add: upd_sub_def fun_upd_idem)
  have d: "terminateDialog a st = st"
    using h c(2) by (simp add: terminateDialog_def)
  have t: "clearTimeout (sub_N this) st = st"
  proof (cases "sub_N this")
    case None
    then show ?thesis by (simp add: clearTimeout_def)
  next
    case (Some i)
    then have "i \<notin> fst ` set (timers st)" using c(3) by auto
    then have "filter (\<lambda>t. fst t \<noteq> i) (timers st) = timers st"
      by (rule filter_fst_absent)
    then show ?thesis using Some by (simp add: clearTimeout_def)
  qed
  have o: "onSubscriptionTerminate a st = emit (Call_onSubscriptionTerminate a) st"
    using h c(5) filter_fst_absent [OF c(4)]
    by (auto simp add: onSubscriptionTerminate_def Let_def emit_def Subscriber_close_def)
  show ?thesis
    using h by (simp add: Subscription_close_def Let_def u d t o)
qed

lemma Subscription_close_funpow:
  assumes "heap st a = Some this"
  shows "(Subscription_close a ^^ Suc n) st
           = (emit (Call_onSubscriptionTerminate a) ^^ n) (Subscription_close a st)
         \<and> closed_subscription a ((Subscription_close a ^^ Suc n) st)"
proof (induction n)
  case 0
  show ?case using Subscription_close_closed [OF assms] by simp
next
  case (Suc n)
  let ?e = "Call_onSubscriptionTerminate a"
  let ?s = "(Subscription_close a ^^ Suc n) st"
  have eq: "?s = (emit ?e ^^ n) (Subscription_close a st)"
    and cl: "closed_subscription a ?s"
    using Suc by blast+
  have "(Subscription_close a ^^ Suc (Suc n)) st = Subscription_close a ?s"
    by simp
  also have "\<dots> = emit ?e ?s"
    by (rule Subscription_close_again [OF cl])
  finally have 1: "(Subscription_close a ^^ Suc (Suc n)) st = emit ?e ?s" .
  have 2: "closed_subscription a (emit ?e ?s)"
    by (rule closed_subscription_emit [OF cl])
  have 3: "emit ?e ?s = (emit ?e ^^ Suc n) (Subscription_close a st)"
    unfolding eq by simp
  show ?case
    using 1 2 3 by simp
qed

lemma log_emit_funpow: "log ((emit e ^^ n) st) = log st @ replicate n e"
  by (induction n) (simp_all add: emit_def replicate_append_same)

lemma count_list_replicate_same: "count_list (replicate n x) x = n"
  by (induction n) simp_all

section \<open>Repeated close\<close>

text \<open>
  C2, as stated, fails for a Subscription: two calls of \<open>close()\<close> invoke the Subscriber's
  \<open>onSubscriptionTerminate\<close> twice, and \<open>close()\<close> on a Subscription whose state is already
  terminated (after \<open>unsubscribe()\<close>) is not a no-op: it removes the entry from the
  subscriptions map.
\<close>

theorem Subscription_close_twice_counterexample:
  "heap ex_active 0 = Some ex_sub
   \<and> count_list (log (Subscription_close 0 (Subscription_close 0 ex_active)))
        (Call_onSubscriptionTerminate 0) = 2
   \<and> map_option sub_state (heap (Subscription_unsubscribe 0 ex_active) 0) = Some ''terminated''
   \<and> Subscription_close 0 (Subscription_unsubscribe 0 ex_active)
        \<noteq> Subscription_unsubscribe 0 ex_active"
proof -
  have h: "heap ex_active 0 = Some ex_sub"
    by (simp add: ex_active_def)
  have h1: "heap (Subscription_close 0 ex_active) 0
              = Some (ex_sub\<lparr>sub_state := ''terminated'', sub_dialog := None\<rparr>)"
    by (simp add: Subscription_close_heap [OF h])
  have l0: "log ex_active = []"
    by (simp add: ex_active_def ex_wait_def)
  have c: "count_list (log (Subscription_close 0 (Subscription_close 0 ex_active)))
        (Call_onSubscriptionTerminate 0) = 2"
    by (simp add: Subscription_close_count [OF h1] Subscription_close_count [OF h] l0)
  let ?u = "Subscription_unsubscribe 0 ex_active"
  have hu: "heap ?u 0 = Some (ex_sub\<lparr>sub_state := ''terminated'', sub_N := Some (next_timer ex_active)\<rparr>)"
    by (simp add: Subscription_unsubscribe_eq [OF h])
  have su: "subscriptions ?u = [(''c1t1r9'', 0)]"
    by (simp add: Subscription_unsubscribe_eq [OF h]) (simp add: ex_active_def)
  have "subscriptions (Subscription_close 0 ?u) = []"
    by (simp add: Subscription_close_subscriptions [OF hu] su) (simp add: ex_sub_def js_key_def)
  then have n: "Subscription_close 0 ?u \<noteq> ?u"
    using su by auto
  show ?thesis
    using h c hu n by simp
qed

text \<open>
  C2, amended: \<open>close()\<close> of a Subscriber is idempotent: N \<ge> 1 calls leave what one call
  leaves, and on a Subscriber that was not terminated they produce exactly one
  \<open>onTerminate\<close> call and one removal from the session registry, of the key that the
  Subscriber's id gives (\<open>undefined\<close> when it never subscribed). \<open>close()\<close> of a
  Subscription has no guard on its state: each of N \<ge> 1 calls invokes
  \<open>onSubscriptionTerminate\<close> (N invocations in all); the calls after the first change
  nothing else.
\<close>

theorem close_repeated:
  "(Subscriber_close ^^ Suc n) st = Subscriber_close st
   \<and> (s_state st \<noteq> Some ''terminated'' \<longrightarrow>
        count_list (log ((Subscriber_close ^^ Suc n) st)) OnTerminate
          = count_list (log st) OnTerminate + 1
        \<and> sessions ((Subscriber_close ^^ Suc n) st) = removeAll (js_key_undefined (s_id st)) (sessions st))
   \<and> (heap st a \<noteq> None \<longrightarrow>
        (Subscription_close a ^^ Suc n) st
          = (emit (Call_onSubscriptionTerminate a) ^^ n) (Subscription_close a st)
        \<and> count_list (log ((Subscription_close a ^^ Suc n) st)) (Call_onSubscriptionTerminate a)
          = count_list (log st) (Call_onSubscriptionTerminate a) + Suc n)"
proof -
  have s: "(Subscriber_close ^^ Suc n) st = Subscriber_close st"
    by (rule Subscriber_close_funpow)
  have o: "count_list (log ((Subscriber_close ^^ Suc n) st)) OnTerminate
          = count_list (log st) OnTerminate + 1
        \<and> sessions ((Subscriber_close ^^ Suc n) st) = removeAll (js_key_undefined (s_id st)) (sessions st)"
    if "s_state st \<noteq> Some ''terminated''"
    unfolding s using Subscriber_close_once [OF that] .
  have c: "(Subscription_close a ^^ Suc n) st
          = (emit (Call_onSubscriptionTerminate a) ^^ n) (Subscription_close a st)
        \<and> count_list (log ((Subscription_close a ^^ Suc n) st)) (Call_onSubscriptionTerminate a)
          = count_list (log st) (Call_onSubscriptionTerminate a) + Suc n"
    if hn: "heap st a \<noteq> None"
  proof -
    obtain this where h: "heap st a = Some this"
      using hn by auto
    have e: "(Subscription_close a ^^ Suc n) st
          = (emit (Call_onSubscriptionTerminate a) ^^ n) (Subscription_close a st)"
      using Subscription_close_funpow [OF h] by blast
    show ?thesis
      unfolding e
      by (simp add: log_emit_funpow Subscription_close_count [OF h] count_list_replicate_same)
  qed
  show ?thesis using s o c by blast
qed

theorem close_repeated_witness:
  "s_state ex_active \<noteq> Some ''terminated'' \<and> heap ex_active 0 \<noteq> None
   \<and> Subscriber_close (Subscriber_close ex_active) = Subscriber_close ex_active
   \<and> count_list (log (Subscriber_close (Subscriber_close ex_active))) OnTerminate = 1
   \<and> count_list (log (Subscription_close 0 (Subscription_close 0 ex_active)))
        (Call_onSubscriptionTerminate 0) = 2
   \<and> s_state ex_fresh \<noteq> Some ''terminated'' \<and> s_id ex_fresh = None
   \<and> sessions ex_fresh = [''s2'']
   \<and> sessions (Subscriber_close (Subscriber_close ex_fresh)) = [''s2'']"
proof -
  have t: "s_state ex_active \<noteq> Some ''terminated''"
    by (simp add: ex_active_def ex_wait_def)
  have f: "s_state ex_fresh \<noteq> Some ''terminated''" "s_id ex_fresh = None"
    "sessions ex_fresh = [''s2'']"
    by (simp_all add: ex_fresh_def)
  note F = close_repeated [of "Suc 0" ex_fresh 0]
  have d: "sessions ((Subscriber_close ^^ Suc (Suc 0)) ex_fresh)
             = removeAll (js_key_undefined (s_id ex_fresh)) (sessions ex_fresh)"
    using F f(1) by blast
  have h: "heap ex_active 0 \<noteq> None"
    by (simp add: ex_active_def)
  have l: "log ex_active = []"
    by (simp add: ex_active_def ex_wait_def)
  note T = close_repeated [of "Suc 0" ex_active 0]
  have a: "(Subscriber_close ^^ Suc (Suc 0)) ex_active = Subscriber_close ex_active"
    using T by blast
  have b: "count_list (log ((Subscriber_close ^^ Suc (Suc 0)) ex_active)) OnTerminate
             = count_list (log ex_active) OnTerminate + 1"
    using T t by blast
  have c: "count_list (log ((Subscription_close 0 ^^ Suc (Suc 0)) ex_active))
             (Call_onSubscriptionTerminate 0)
             = count_list (log ex_active) (Call_onSubscriptionTerminate 0) + Suc (Suc 0)"
    using T h by blast
  have d': "sessions (Subscriber_close (Subscriber_close ex_fresh)) = [''s2'']"
    using d by (simp add: f js_key_undefined_def)
  show ?thesis
    using t h a b c f d' by (simp add: l)
qed

section \<open>The sample configurations are reachable\<close>

text \<open>Up to the trace, \<open>ex_wait\<close> is what \<open>subscribe()\<close> makes of a fresh Subscriber, and
  \<open>ex_active\<close> is what a first NOTIFY with Subscription-State active makes of \<open>ex_wait\<close>.\<close>

lemma ex_wait_reachable:
  "(Subscriber_subscribe ''t1''
      (ex_wait\<lparr>s_state := None, s_N := None, cseq := 80, s_id := None, sessions := [],
               timers := [], next_timer := 0\<rparr>))\<lparr>log := []\<rparr> = ex_wait"
  by (simp add: Subscriber_subscribe_def createSubscribeRequest_def Let_def setTimeout_def
      emit_def ex_wait_def js_key_undefined_def key_set_def getAllowedMethods_def)

lemma ex_active_reachable:
  "(Subscriber_receiveRequest ex_mk (ex_notify ''active'' None) ex_wait)\<lparr>log := []\<rparr> = ex_active"
proof -
  let ?rq = "ex_notify ''active'' None"
  let ?ss = "\<lparr>ss_state = ''active'', ss_expires = None, ss_reason = None\<rparr>"
  let ?c = "ex_wait\<lparr>timers := []\<rparr>"
  let ?r = "?c\<lparr>heap := Map.empty(0 \<mapsto> ex_sub\<lparr>sub_N := None\<rparr>), next_ref := 1,
               subscriptions := [(''c1t1r9'', 0)]\<rparr>"
  let ?st3 = "emit (ReceiveInfo ?rq)
                (upd_sub 0 (\<lambda>s. s\<lparr>sub_state := ''active''\<rparr>)
                   (emit (Reply 200 ''OK'' [''Contact: <'' @ contact ?r @ ''>'']) ?r))"
  have s: "rq_subscription_state ?rq = Some ?ss"
    by (simp add: ex_notify_def)
  have m: "matchEvent ?rq ex_wait = (True, ex_wait)"
    by (simp add: matchEvent_def ex_notify_def ex_wait_def)
  have c: "clearTimeout (s_N ex_wait) ex_wait = ?c"
    by (simp add: clearTimeout_def ex_wait_def)
  have e1: "Subscriber_receiveRequest ex_mk ?rq ex_wait = Subscription_new ex_mk ?rq ''active'' 180 ?c"
    unfolding Subscriber_receiveRequest_def m c [symmetric]
    by (simp add: s js_or_def) (simp add: ex_wait_def)
  have r: "registered ex_mk ?rq ''active'' 180 ?c = ?r"
    by (simp add: registered_def ex_wait_def ex_mk_def ex_dialog_def ex_sub_def ex_notify_def
        js_key_def)
  have h: "heap ?r 0 = Some (ex_sub\<lparr>sub_N := None\<rparr>)"
    by simp
  have h3: "heap ?st3 0 = Some (ex_sub\<lparr>sub_N := None\<rparr>)"
    by (simp add: emit_def upd_sub_def ex_sub_def)
  have e2: "Subscription_receiveRequest 0 ?rq True ?r = Subscription_receiveRequest_pending 0 ?ss ?st3"
    unfolding Subscription_receiveRequest_def h by (simp add: s Let_def)
  have n: "next_ref ?c = 0"
    by (simp add: ex_wait_def)
  have d: "dlg_id (ex_mk ?rq ''UAS'') = Some ''c1t1r9''"
    by (simp add: ex_mk_def ex_dialog_def)
  note q = Subscription_new_eq [of ex_mk ?rq "''c1t1r9''" "''active''" 180 ?c, OF d]
  show ?thesis
    unfolding e1 q n r e2 Subscription_receiveRequest_pending_eq [OF h3]
    by (simp add: emit_def upd_sub_def clearTimeout_def js_or_def ex_active_def ex_sub_def)
       (simp add: ex_wait_def)
qed

end
